theory Spec2Isabelle
  imports Complex_Main "HOL-Library.Log_Nat"
begin

section \<open>Values read from the spreadsheet\<close>

text \<open>
  The script reads cells with \<^verbatim>\<open>getValues()\<close>, which yields a string (the empty string
  for an empty cell), a number, a boolean or a \<^verbatim>\<open>Date\<close>; indexing a row beyond its
  length yields \<^verbatim>\<open>undefined\<close>. A \<^verbatim>\<open>Date\<close> is modelled by the four local-time fields
  the script reads from it. A string is a list of code units below 256.

  A number is an IEEE 754 double, written as the rational it equals; a rational that no
  double equals stands for the double nearest to it. Every arithmetic operation of the
  script rounds its exact result to the nearest double, ties to even, which \<open>fl\<close>
  computes: the quantum of a number is \<open>2 ^ (e - 52)\<close> for its binary exponent \<open>e\<close>,
  which is at least -1022 (the subnormal range). \<^verbatim>\<open>NaN\<close> and the infinities never
  come out of a cell; a result beyond the largest double, where the script has an
  infinity, is outside the model.
\<close>

definition half_even :: "rat \<Rightarrow> int" where
  "half_even m =
     (let f = \<lfloor>m\<rfloor>; d = m - of_int f
      in if d < 1 / 2 then f else if d > 1 / 2 then f + 1 else if even f then f else f + 1)"

definition binade :: "rat \<Rightarrow> int" where
  "binade x =
     (case quotient_of \<bar>x\<bar> of (p, q) \<Rightarrow>
        let e0 = bitlen p - bitlen q in if 2 powi e0 \<le> \<bar>x\<bar> then e0 else e0 - 1)"

definition fl :: "rat \<Rightarrow> rat" where
  "fl x =
     (if x = 0 then 0
      else (let u = 2 powi (max (binade x) (- 1022) - 52) in of_int (half_even (x / u)) * u))"

datatype jsdate = JsDate (getFullYear: int) (getMonth: int) (getDate: int) (getHours: int)

datatype jsval = JUndefined | JBool bool | JNum rat | JStr string | JDate jsdate

text \<open>JavaScript's truthiness: what \<^verbatim>\<open>if (v)\<close> and \<^verbatim>\<open>!v\<close> test.\<close>

fun truthy :: "jsval \<Rightarrow> bool" where
  "truthy JUndefined = False"
| "truthy (JBool b) = b"
| "truthy (JNum q) = (q \<noteq> 0)"
| "truthy (JStr s) = (s \<noteq> [])"
| "truthy (JDate d) = True"

text \<open>
  What the host does and the model does not compute is a parameter of the functions
  that need it: the rendering of a number that is not a small integer, the rendering of
  a \<^verbatim>\<open>Date\<close>, and the \<^verbatim>\<open>Date\<close> constructor applied to a cell that is not a
  \<^verbatim>\<open>Date\<close> already (\<open>None\<close> is an invalid date).
\<close>

record host =
  numberToString :: "rat \<Rightarrow> string"
  dateToString :: "jsdate \<Rightarrow> string"
  parseDate :: "jsval \<Rightarrow> jsdate option"

section \<open>String built-ins\<close>

definition is_space :: "char \<Rightarrow> bool" where
  "is_space c = (c \<in> set [CHR 0x09, CHR 0x0A, CHR 0x0B, CHR 0x0C, CHR 0x0D, CHR 0x20, CHR 0xA0])"

definition is_digit :: "char \<Rightarrow> bool" where
  "is_digit c = (c \<in> set ''0123456789'')"

definition js_trim :: "string \<Rightarrow> string" where
  "js_trim s = rev (dropWhile is_space (rev (dropWhile is_space s)))"

text \<open>The value of a digit in radix 16 (which covers radix 10), \<open>None\<close> for any other character.\<close>

definition hex_val :: "char \<Rightarrow> nat option" where
  "hex_val c =
     map_of [(CHR ''0'', 0), (CHR ''1'', 1), (CHR ''2'', 2), (CHR ''3'', 3), (CHR ''4'', 4),
             (CHR ''5'', 5), (CHR ''6'', 6), (CHR ''7'', 7), (CHR ''8'', 8), (CHR ''9'', 9),
             (CHR ''a'', 10), (CHR ''b'', 11), (CHR ''c'', 12), (CHR ''d'', 13), (CHR ''e'', 14),
             (CHR ''f'', 15), (CHR ''A'', 10), (CHR ''B'', 11), (CHR ''C'', 12), (CHR ''D'', 13),
             (CHR ''E'', 14), (CHR ''F'', 15)] c"

definition digit_in :: "nat \<Rightarrow> char \<Rightarrow> bool" where
  "digit_in radix c = (case hex_val c of Some v \<Rightarrow> v < radix | None \<Rightarrow> False)"

definition digits_value :: "nat \<Rightarrow> string \<Rightarrow> int" where
  "digits_value radix ds = foldl (\<lambda>acc c. acc * int radix + int (case hex_val c of Some v \<Rightarrow> v | None \<Rightarrow> 0)) 0 ds"

text \<open>
  \<^verbatim>\<open>parseInt(s)\<close> with no radix: leading white space is skipped, a sign is read, a
  prefix \<^verbatim>\<open>0x\<close> or \<^verbatim>\<open>0X\<close> selects radix 16, and the longest run of digits is the
  value, rounded to a double (which is again an integer); \<open>None\<close> is \<^verbatim>\<open>NaN\<close>.
\<close>

definition js_parseInt :: "string \<Rightarrow> int option" where
  "js_parseInt s =
     (let s1 = dropWhile is_space s;
          neg = (case s1 of c # _ \<Rightarrow> c = CHR ''-'' | [] \<Rightarrow> False);
          s2 = (case s1 of c # cs \<Rightarrow> if c = CHR ''-'' \<or> c = CHR ''+'' then cs else s1 | [] \<Rightarrow> s1);
          hex = (take 2 s2 = ''0x'' \<or> take 2 s2 = ''0X'');
          radix = (if hex then 16 else 10);
          s3 = (if hex then drop 2 s2 else s2);
          ds = takeWhile (digit_in radix) s3
      in if ds = [] then None
         else Some \<lfloor>fl (of_int (if neg then - digits_value radix ds else digits_value radix ds))\<rfloor>)"

text \<open>\<^verbatim>\<open>s.split(sep)\<close> for a separator of one character.\<close>

fun js_split :: "char \<Rightarrow> string \<Rightarrow> string list" where
  "js_split sep [] = [[]]"
| "js_split sep (c # cs) =
     (if c = sep then [] # js_split sep cs
      else (case js_split sep cs of p # ps \<Rightarrow> (c # p) # ps | [] \<Rightarrow> [[c]]))"

text \<open>\<^verbatim>\<open>s.indexOf(sub) >= 0\<close>.\<close>

fun js_includes :: "string \<Rightarrow> string \<Rightarrow> bool" where
  "js_includes sub [] = (sub = [])"
| "js_includes sub (c # cs) = (take (length sub) (c # cs) = sub \<or> js_includes sub cs)"

text \<open>
  The decimal rendering of an integer. JavaScript renders a number so when it is an
  integer below \<open>10^21\<close> in absolute value; any other number is rendered by the host.
\<close>

function nat_digits :: "nat \<Rightarrow> string" where
  "nat_digits n = (if n < 10 then [''0123456789'' ! n] else nat_digits (n div 10) @ [''0123456789'' ! (n mod 10)])"
  by pat_completeness auto
termination
  by (relation "measure id") auto

declare nat_digits.simps [simp del]

definition js_number_toString :: "host \<Rightarrow> rat \<Rightarrow> string" where
  "js_number_toString h q =
     (if q = of_int \<lfloor>q\<rfloor> \<and> \<bar>q\<bar> < 10 ^ 21
      then (if q < 0 then CHR ''-'' # nat_digits (nat (- \<lfloor>q\<rfloor>)) else nat_digits (nat \<lfloor>q\<rfloor>))
      else numberToString h q)"

text \<open>
  \<^verbatim>\<open>v.toString()\<close>. The script calls it only behind a truthiness test, so never on
  \<^verbatim>\<open>undefined\<close>, where it would throw; the model gives the text of \<^verbatim>\<open>String(undefined)\<close>.
\<close>

fun js_toString :: "host \<Rightarrow> jsval \<Rightarrow> string" where
  "js_toString h (JStr s) = s"
| "js_toString h (JBool b) = (if b then ''true'' else ''false'')"
| "js_toString h (JNum q) = js_number_toString h q"
| "js_toString h (JDate d) = dateToString h d"
| "js_toString h JUndefined = ''undefined''"

section \<open>Time parsing and formatting\<close>

text \<open>
  \<^verbatim>\<open>formatTimeAMPM(hour)\<close>: the callers pass integer hours.
\<close>

definition formatTimeAMPM :: "host \<Rightarrow> int \<Rightarrow> string" where
  "formatTimeAMPM h hour =
     (if hour = 0 then ''12AM''
      else if hour = 24 then ''Midnight''
      else if hour = 12 then ''12PM''
      else if hour < 12 then js_number_toString h (of_int hour) @ ''AM''
      else js_number_toString h (of_int (hour - 12)) @ ''PM'')"

text \<open>
  The regular expression \<^verbatim>\<open>/(\d{1,2})(?::(\d{2}))?\s*(AM|PM)/i\<close>, as a backtracking
  matcher that tries the alternatives in the order the engine does. Each function
  matches a tail of the pattern at the start of its argument and returns group 3.
\<close>

definition ampm_here :: "string \<Rightarrow> string option" where
  "ampm_here r =
     (case r of
        a # m # _ \<Rightarrow>
          if (a = CHR ''A'' \<or> a = CHR ''a'' \<or> a = CHR ''P'' \<or> a = CHR ''p'') \<and> (m = CHR ''M'' \<or> m = CHR ''m'')
          then Some [a, m] else None
      | _ \<Rightarrow> None)"

fun spaces_ampm :: "string \<Rightarrow> string option" where
  "spaces_ampm [] = None"
| "spaces_ampm (c # cs) =
     (if is_space c
      then (case spaces_ampm cs of Some g \<Rightarrow> Some g | None \<Rightarrow> ampm_here (c # cs))
      else ampm_here (c # cs))"

definition minutes_spaces_ampm :: "string \<Rightarrow> string option" where
  "minutes_spaces_ampm r =
     (case r of
        c # d1 # d2 # rest \<Rightarrow>
          if c = CHR '':'' \<and> is_digit d1 \<and> is_digit d2
          then (case spaces_ampm rest of Some g \<Rightarrow> Some g | None \<Rightarrow> spaces_ampm r)
          else spaces_ampm r
      | _ \<Rightarrow> spaces_ampm r)"

text \<open>A match starting at the first character: groups 1 and 3.\<close>

definition ampm_at :: "string \<Rightarrow> (string \<times> string) option" where
  "ampm_at r =
     (case r of
        [] \<Rightarrow> None
      | d1 # r1 \<Rightarrow>
          if \<not> is_digit d1 then None
          else (case (case r1 of
                        d2 # r2 \<Rightarrow> if is_digit d2 then map_option (Pair [d1, d2]) (minutes_spaces_ampm r2) else None
                      | [] \<Rightarrow> None) of
                  Some m \<Rightarrow> Some m
                | None \<Rightarrow> map_option (Pair [d1]) (minutes_spaces_ampm r1)))"

text \<open>\<^verbatim>\<open>timeStr.match(...)\<close>: the leftmost position where a match starts.\<close>

fun ampmMatch :: "string \<Rightarrow> (string \<times> string) option" where
  "ampmMatch [] = None"
| "ampmMatch (c # cs) = (case ampm_at (c # cs) of Some m \<Rightarrow> Some m | None \<Rightarrow> ampmMatch cs)"

text \<open>The regular expression \<^verbatim>\<open>/(\d{1,2}):/\<close>: group 1 of the leftmost match.\<close>

definition hour_at :: "string \<Rightarrow> string option" where
  "hour_at r =
     (case r of
        d1 # d2 # c # _ \<Rightarrow>
          if is_digit d1 \<and> is_digit d2 \<and> c = CHR '':'' then Some [d1, d2]
          else if is_digit d1 \<and> d2 = CHR '':'' then Some [d1]
          else None
      | [d1, d2] \<Rightarrow> if is_digit d1 \<and> d2 = CHR '':'' then Some [d1] else None
      | _ \<Rightarrow> None)"

fun hourMatch :: "string \<Rightarrow> string option" where
  "hourMatch [] = None"
| "hourMatch (c # cs) = (case hour_at (c # cs) of Some g \<Rightarrow> Some g | None \<Rightarrow> hourMatch cs)"

text \<open>\<^verbatim>\<open>ampmMatch[3].toUpperCase() === 'PM'\<close>; group 3 holds two of the letters A, M, P.\<close>

definition isPM :: "string \<Rightarrow> bool" where
  "isPM g = (g = ''PM'' \<or> g = ''Pm'' \<or> g = ''pM'' \<or> g = ''pm'')"

text \<open>
  \<^verbatim>\<open>parseHourFromTime(timeValue)\<close>. Groups of the two expressions hold one or two decimal
  digits, so \<^verbatim>\<open>parseInt\<close> of a group is its decimal value (lemma \<open>parseInt_of_groups\<close>).
\<close>

definition parseHourFromTime :: "host \<Rightarrow> jsval \<Rightarrow> int" where
  "parseHourFromTime h timeValue =
     (if \<not> truthy timeValue \<and> timeValue \<noteq> JNum 0 then 0
      else case timeValue of
        JDate d \<Rightarrow> getHours d
      | JNum q \<Rightarrow> \<lfloor>fl (fl q * 24)\<rfloor>
      | _ \<Rightarrow>
        (let timeStr = js_trim (js_toString h timeValue) in
         case ampmMatch timeStr of
           Some (g1, g3) \<Rightarrow>
             (let hour = digits_value 10 g1 in
              if hour = 12 \<and> \<not> isPM g3 then 0
              else if hour \<noteq> 12 \<and> isPM g3 then hour + 12
              else hour)
         | None \<Rightarrow>
             (case hourMatch timeStr of
                Some g1 \<Rightarrow> digits_value 10 g1
              | None \<Rightarrow>
                  (case js_parseInt timeStr of
                     Some num \<Rightarrow> num
                   | None \<Rightarrow> 0))))"

section \<open>Day-of-week calendar\<close>

text \<open>
  The \<^verbatim>\<open>Date\<close> built-in, as far as the script uses it with numeric arguments:
  \<^verbatim>\<open>new Date(year, monthIndex, day)\<close> is a day of the proleptic Gregorian calendar,
  counted from 1 January 1970; a month index outside 0..11 and a day outside the month
  carry over, and a year from 0 to 99 means 1900 plus that year.
\<close>

definition days_from_civil :: "int \<Rightarrow> int \<Rightarrow> int \<Rightarrow> int" where
  "days_from_civil y m d =
     (let y1 = (if m \<le> 2 then y - 1 else y);
          era = y1 div 400;
          yoe = y1 - era * 400;
          doy = (153 * (if m > 2 then m - 3 else m + 9) + 2) div 5 + d - 1;
          doe = yoe * 365 + yoe div 4 - yoe div 100 + doy
      in era * 146097 + doe - 719468)"

definition civil_from_days :: "int \<Rightarrow> int \<times> int \<times> int" where
  "civil_from_days z =
     (let z1 = z + 719468;
          era = z1 div 146097;
          doe = z1 - era * 146097;
          yoe = (doe - doe div 1460 + doe div 36524 - doe div 146096) div 365;
          doy = doe - (365 * yoe + yoe div 4 - yoe div 100);
          mp = (5 * doy + 2) div 153;
          d = doy - (153 * mp + 2) div 5 + 1;
          m = (if mp < 10 then mp + 3 else mp - 9)
      in (if m \<le> 2 then yoe + era * 400 + 1 else yoe + era * 400, m, d))"

definition js_Date :: "int \<Rightarrow> int \<Rightarrow> int \<Rightarrow> int" where
  "js_Date year monthIndex day =
     (let y = (if 0 \<le> year \<and> year \<le> 99 then 1900 + year else year)
      in days_from_civil (y + monthIndex div 12) (monthIndex mod 12 + 1) 1 + day - 1)"

definition day_getDate :: "int \<Rightarrow> int" where
  "day_getDate z = (case civil_from_days z of (y, m, d) \<Rightarrow> d)"

definition day_getDay :: "int \<Rightarrow> int" where
  "day_getDay z = (z + 4) mod 7"

definition dayNames :: "string list" where
  "dayNames = [''Sunday'', ''Monday'', ''Tuesday'', ''Wednesday'', ''Thursday'', ''Friday'', ''Saturday'']"

record dayinfo =
  dayName :: string
  dayIndex :: int

definition monthDays :: "int \<Rightarrow> int \<Rightarrow> nat" where
  "monthDays monthNum year = nat (day_getDate (js_Date year monthNum 0))"

text \<open>
  \<^verbatim>\<open>buildDayOfWeekCache(monthNum, year)\<close>: the loop over the days of the month fills an
  object keyed by the day number.
\<close>

definition buildDayOfWeekCache :: "int \<Rightarrow> int \<Rightarrow> (nat \<Rightarrow> dayinfo option)" where
  "buildDayOfWeekCache monthNum year =
     foldl (\<lambda>cache day.
              let dayIndex = day_getDay (js_Date year (monthNum - 1) (int day))
              in cache(day \<mapsto> \<lparr>dayName = dayNames ! nat dayIndex, dayIndex = dayIndex\<rparr>))
           Map.empty [1 ..< monthDays monthNum year + 1]"

section \<open>Opening-hours resolver\<close>

text \<open>
  The \<^verbatim>\<open>ClubInfo\<close> tab, by the ranges the script reads: B4, D5 (the number of courts, a
  number by the data model), A9:B25 as rows of two cells, and D5:K7 as a function of the
  row and column index within the range (\<^verbatim>\<open>getValues()\<close> always returns 3 rows of 8).
\<close>

record clubinfo =
  clubName :: jsval
  maxHoursPerHour :: rat
  openingHoursData :: "(jsval \<times> jsval) list"
  openingHoursRange :: "nat \<Rightarrow> nat \<Rightarrow> jsval"

record opening_interval =
  opens :: int
  closes :: int

text \<open>
  The object \<^verbatim>\<open>dayOpeningHours\<close> is an association list, the newest binding first, so
  that \<open>map_of\<close> reads what the last assignment wrote. A key is the cell value used as
  property name; the script looks up only the seven day names, which no value other
  than the same string names. Assigning to the name \<^verbatim>\<open>__proto__\<close> creates no property.
\<close>

type_synonym schedule = "(jsval \<times> opening_interval) list"

definition set_day :: "schedule \<Rightarrow> jsval \<Rightarrow> opening_interval \<Rightarrow> schedule" where
  "set_day d k v = (if k = JStr ''__proto__'' then d else (k, v) # d)"

record hours_state =
  dayOpeningHours :: schedule
  earliestHour :: int
  latestHour :: int

definition store_hours :: "hours_state \<Rightarrow> jsval \<Rightarrow> int \<Rightarrow> int \<Rightarrow> hours_state" where
  "store_hours st key openHour closeHour =
     \<lparr>dayOpeningHours = set_day (dayOpeningHours st) key \<lparr>opens = openHour, closes = closeHour\<rparr>,
      earliestHour = (if openHour < earliestHour st then openHour else earliestHour st),
      latestHour = (if closeHour > latestHour st then closeHour else latestHour st)\<rparr>"

definition first_part :: "char \<Rightarrow> string \<Rightarrow> string" where
  "first_part sep s = (case js_split sep s of p # _ \<Rightarrow> p | [] \<Rightarrow> [])"

text \<open>The close hour of the traditional layout, after the midnight rule; \<open>None\<close> is \<^verbatim>\<open>NaN\<close>.\<close>

definition traditionalCloseHour :: "string \<Rightarrow> int option" where
  "traditionalCloseHour closeTime =
     (let closeHour = js_parseInt (first_part (CHR '':'') closeTime)
      in if closeTime = ''24:00'' \<or> (closeHour = Some 0 \<and> js_includes ''00:00'' closeTime)
         then Some 24 else closeHour)"

text \<open>One row of A9:B25 in the traditional layout.\<close>

definition parseTraditionalRow :: "host \<Rightarrow> hours_state \<Rightarrow> jsval \<times> jsval \<Rightarrow> hours_state" where
  "parseTraditionalRow h st row =
     (case row of (dayLabel, hoursString) \<Rightarrow>
        if truthy dayLabel \<and> truthy hoursString then
          (case js_split (CHR ''-'') (js_toString h hoursString) of
             [p0, p1] \<Rightarrow>
               (let openTime = js_trim p0;
                    closeTime = js_trim p1;
                    openHour = js_parseInt (first_part (CHR '':'') openTime)
                in case (openHour, traditionalCloseHour closeTime) of
                     (Some oh, Some ch) \<Rightarrow> store_hours st dayLabel oh ch
                   | _ \<Rightarrow> st)
           | _ \<Rightarrow> st)
        else st)"

text \<open>One weekday of D5:K7 in the grid layout.\<close>

definition gridCloseHour :: "host \<Rightarrow> jsval \<Rightarrow> int" where
  "gridCloseHour h closeTime =
     (let closeHour = parseHourFromTime h closeTime in if closeHour = 0 then 24 else closeHour)"

definition parseGridDay :: "host \<Rightarrow> (nat \<Rightarrow> nat \<Rightarrow> jsval) \<Rightarrow> hours_state \<Rightarrow> nat \<Rightarrow> hours_state" where
  "parseGridDay h cells st i =
     store_hours st (JStr (dayNames ! i))
       (parseHourFromTime h (cells 1 (i + 1))) (gridCloseHour h (cells 2 (i + 1)))"

definition hasTraditionalFormat :: "(jsval \<times> jsval) list \<Rightarrow> bool" where
  "hasTraditionalFormat rows = list_ex (\<lambda>(a, b). truthy a \<and> truthy b) rows"

definition initialHours :: hours_state where
  "initialHours = \<lparr>dayOpeningHours = [], earliestHour = 24, latestHour = 0\<rparr>"

definition parseOpeningHours :: "host \<Rightarrow> clubinfo \<Rightarrow> hours_state" where
  "parseOpeningHours h ci =
     (if hasTraditionalFormat (openingHoursData ci)
      then foldl (parseTraditionalRow h) initialHours (openingHoursData ci)
      else foldl (parseGridDay h (openingHoursRange ci)) initialHours [0 ..< 7])"

text \<open>The safety check after parsing: the default hours 8AM-11PM for the seven day names.\<close>

definition needsDefaults :: "hours_state \<Rightarrow> bool" where
  "needsDefaults st = (earliestHour st = 24 \<or> latestHour st = 0 \<or> dayOpeningHours st = [])"

definition applyDefaults :: "hours_state \<Rightarrow> hours_state" where
  "applyDefaults st =
     (if needsDefaults st
      then \<lparr>dayOpeningHours =
              foldl (\<lambda>d name. set_day d (JStr name) \<lparr>opens = 8, closes = 23\<rparr>) (dayOpeningHours st) dayNames,
            earliestHour = 8, latestHour = 23\<rparr>
      else st)"

section \<open>Availability grid builder\<close>

datatype error = ClubInfoTabNotFound | TypeError

record availability = hours_state +
  availableGrid :: "rat list list"
  timeRows :: "int list"
  daysInMonth :: nat
  dayOfWeekCache :: "nat \<Rightarrow> dayinfo option"

text \<open>
  The hour rows: from the earliest hour to the last hour row, with the second safety
  check. The pair is the value of \<^verbatim>\<open>earliestHour\<close> and of \<^verbatim>\<open>lastHourRow\<close> after it.
\<close>

definition hourBounds :: "int \<Rightarrow> int \<Rightarrow> int \<times> int" where
  "hourBounds earliest latest =
     (let lastHourRow = (if latest = 24 then 23 else latest - 1)
      in if earliest > lastHourRow then (8, 23) else (earliest, lastHourRow))"

text \<open>
  One cell of the grid. Reading \<^verbatim>\<open>dayInfo.dayName\<close> of a day that is not in the cache
  throws a \<^verbatim>\<open>TypeError\<close>.
\<close>

definition availableCell :: "schedule \<Rightarrow> rat \<Rightarrow> (nat \<Rightarrow> dayinfo option) \<Rightarrow> int \<Rightarrow> nat \<Rightarrow> error + rat" where
  "availableCell doh maxH cache hour day =
     (case cache day of
        None \<Rightarrow> Inl TypeError
      | Some dayInfo \<Rightarrow>
          (case map_of doh (JStr (dayName dayInfo)) of
             Some openingInfo \<Rightarrow>
               if hour \<ge> opens openingInfo \<and> hour < closes openingInfo then Inr maxH else Inr 0
           | None \<Rightarrow> Inr 0))"

text \<open>The two nested loops that assign \<^verbatim>\<open>availableGrid[hourIndex][dayIndex]\<close>.\<close>

fun fillDays :: "(nat \<Rightarrow> error + rat) \<Rightarrow> nat list \<Rightarrow> rat list \<Rightarrow> error + rat list" where
  "fillDays cellf [] row = Inr row"
| "fillDays cellf (day # days) row =
     (case cellf day of
        Inl e \<Rightarrow> Inl e
      | Inr v \<Rightarrow> fillDays cellf days (row[day - 1 := v]))"

fun fillRows :: "(int \<Rightarrow> nat \<Rightarrow> error + rat) \<Rightarrow> int list \<Rightarrow> nat list \<Rightarrow> nat list \<Rightarrow> rat list list \<Rightarrow> error + rat list list" where
  "fillRows cellf rows days [] grid = Inr grid"
| "fillRows cellf rows days (hourIndex # rest) grid =
     (case fillDays (cellf (rows ! hourIndex)) days (grid ! hourIndex) of
        Inl e \<Rightarrow> Inl e
      | Inr row \<Rightarrow> fillRows cellf rows days rest (grid[hourIndex := row]))"

text \<open>
  \<^verbatim>\<open>calculateAvailableHours(monthNum, year)\<close>; the first argument is what
  \<^verbatim>\<open>getSheetByName('ClubInfo')\<close> returns.
\<close>

definition calculateAvailableHours :: "host \<Rightarrow> clubinfo option \<Rightarrow> int \<Rightarrow> int \<Rightarrow> error + availability" where
  "calculateAvailableHours h clubInfoSheet monthNum year =
     (case clubInfoSheet of
        None \<Rightarrow> Inl ClubInfoTabNotFound
      | Some ci \<Rightarrow>
          (let st = applyDefaults (parseOpeningHours h ci);
               cache = buildDayOfWeekCache monthNum year;
               nDays = monthDays monthNum year;
               (earliest, lastHourRow) = hourBounds (earliestHour st) (latestHour st);
               rows = [earliest .. lastHourRow];
               grid0 = replicate (length rows) (replicate nDays 0)
           in case fillRows (availableCell (dayOpeningHours st) (maxHoursPerHour ci) cache)
                     rows [1 ..< nDays + 1] [0 ..< length rows] grid0 of
                Inl e \<Rightarrow> Inl e
              | Inr grid \<Rightarrow>
                  Inr \<lparr>dayOpeningHours = dayOpeningHours st, earliestHour = earliest,
                       latestHour = latestHour st, availableGrid = grid, timeRows = rows,
                       daysInMonth = nDays, dayOfWeekCache = cache\<rparr>))"

section \<open>Sheets and column sums\<close>

text \<open>
  A data tab is the rectangle of values of its data range, row by row; an empty tab has
  no rows. \<^verbatim>\<open>getSheetByName\<close> is a lookup that may find nothing.
\<close>

type_synonym sheet = "jsval list list"

record spreadsheet =
  clubInfoTab :: "clubinfo option"
  tabs :: "string \<Rightarrow> sheet option"

definition lastRow :: "sheet \<Rightarrow> nat" where
  "lastRow sh = length sh"

definition lastCol :: "sheet \<Rightarrow> nat" where
  "lastCol sh = (case sh of [] \<Rightarrow> 0 | r # _ \<Rightarrow> length r)"

text \<open>\<^verbatim>\<open>rowData[i]\<close>: \<^verbatim>\<open>undefined\<close> beyond the end of the row.\<close>

definition cellAt :: "jsval list \<Rightarrow> nat \<Rightarrow> jsval" where
  "cellAt rowData i = (if i < length rowData then rowData ! i else JUndefined)"

text \<open>
  \<^verbatim>\<open>sumColumnH(sheet, sheetName)\<close>: the range of column 8 over the rows of the tab; a
  cell of the range beyond the data is empty. Only numbers are added, each addition
  rounding to a double.
\<close>

definition columnH :: "jsval list \<Rightarrow> jsval" where
  "columnH rowData = (if 7 < length rowData then rowData ! 7 else JStr [])"

definition sumColumnH :: "sheet \<Rightarrow> rat" where
  "sumColumnH sh =
     (if lastRow sh = 0 then 0
      else foldl (\<lambda>sum rowData. case columnH rowData of JNum q \<Rightarrow> fl (sum + fl q) | _ \<Rightarrow> sum) 0 sh)"

section \<open>Tab-pair validation\<close>

text \<open>
  \<^verbatim>\<open>monthHours()\<close>: for each of the three tab pairs one line of the result message. The
  arguments are the button of the prompt and the text entered; \<open>None\<close> is a return before
  any pair is processed.
\<close>

definition comparisonLabel :: "rat \<Rightarrow> rat \<Rightarrow> string" where
  "comparisonLabel primarySum secondarySum =
     (let isEqual = (primarySum = secondarySum) in if isEqual then ''EQUAL'' else ''NOT EQUAL'')"

definition fourDigits :: "string \<Rightarrow> bool" where
  "fourDigits s = (length s = 4 \<and> list_all is_digit s)"

definition pairLine :: "host \<Rightarrow> spreadsheet \<Rightarrow> string \<Rightarrow> string \<Rightarrow> string" where
  "pairLine h ss monthDigits name =
     (case tabs ss (monthDigits @ name) of
        None \<Rightarrow> name @ '' comparison: Primary tab '' @ [CHR 0x27] @ monthDigits @ name @ [CHR 0x27] @ '' not found''
      | Some primarySheet \<Rightarrow>
          (case tabs ss (monthDigits @ name @ ''_2'') of
             None \<Rightarrow> name @ '' comparison: Secondary tab '' @ [CHR 0x27] @ monthDigits @ name @ ''_2'' @ [CHR 0x27] @ '' not found''
           | Some secondarySheet \<Rightarrow>
               (let primarySum = sumColumnH primarySheet;
                    secondarySum = sumColumnH secondarySheet
                in name @ '' comparison: '' @ js_number_toString h primarySum @ '' vs ''
                   @ js_number_toString h secondarySum @ '' - '' @ comparisonLabel primarySum secondarySum)))"

definition monthHours :: "host \<Rightarrow> spreadsheet \<Rightarrow> bool \<Rightarrow> string \<Rightarrow> string list option" where
  "monthHours h ss okPressed monthDigits =
     (if \<not> okPressed then None
      else if \<not> fourDigits monthDigits then None
      else Some (map (pairLine h ss monthDigits) [''e'', ''i'', ''na'']))"

section \<open>Booking aggregator\<close>

text \<open>
  A cell of the booking grid starts as the number 0 and grows by \<^verbatim>\<open>+=\<close>. Adding a
  string or a \<^verbatim>\<open>Date\<close> turns it into a string, whose characters the model does not
  keep (\<open>Text\<close>; such a string is never empty); adding \<^verbatim>\<open>undefined\<close> gives \<^verbatim>\<open>NaN\<close>.
\<close>

datatype cell = Num rat | NaN | Text

fun js_plus :: "cell \<Rightarrow> jsval \<Rightarrow> cell" where
  "js_plus (Num a) (JNum b) = Num (fl (a + fl b))"
| "js_plus (Num a) (JBool b) = Num (fl (a + (if b then 1 else 0)))"
| "js_plus (Num a) JUndefined = NaN"
| "js_plus (Num a) (JStr s) = Text"
| "js_plus (Num a) (JDate d) = Text"
| "js_plus NaN (JStr s) = Text"
| "js_plus NaN (JDate d) = Text"
| "js_plus NaN v = NaN"
| "js_plus Text v = Text"

fun cell_truthy :: "cell \<Rightarrow> bool" where
  "cell_truthy (Num a) = (a \<noteq> 0)"
| "cell_truthy NaN = False"
| "cell_truthy Text = True"

text \<open>\<^verbatim>\<open>timeRows.indexOf(hour)\<close>: the first index, or -1.\<close>

fun js_indexOf :: "int list \<Rightarrow> int \<Rightarrow> int" where
  "js_indexOf [] x = - 1"
| "js_indexOf (y # ys) x =
     (if y = x then 0 else (let i = js_indexOf ys x in if i < 0 then - 1 else i + 1))"

text \<open>\<^verbatim>\<open>new Date(dateValue)\<close>: a copy of a \<^verbatim>\<open>Date\<close>, the host's reading of anything else.\<close>

definition newDate :: "host \<Rightarrow> jsval \<Rightarrow> jsdate option" where
  "newDate h v = (case v of JDate d \<Rightarrow> Some d | _ \<Rightarrow> parseDate h v)"

definition startHour :: "host \<Rightarrow> jsval \<Rightarrow> int" where
  "startHour h startTime =
     (case startTime of
        JDate d \<Rightarrow> getHours d
      | JNum q \<Rightarrow> \<lfloor>fl (fl q * 24)\<rfloor>
      | _ \<Rightarrow> parseHourFromTime h (JStr (js_toString h startTime)))"

record bookings =
  dataGrid :: "cell list list"
  processedCount :: nat

text \<open>
  The body of the loop over the source rows. The getters of an invalid date return
  \<^verbatim>\<open>NaN\<close>, which equals no month, so the row is left out.
\<close>

definition processRow :: "host \<Rightarrow> int list \<Rightarrow> nat \<Rightarrow> int \<Rightarrow> int \<Rightarrow> bookings \<Rightarrow> jsval list \<Rightarrow> bookings" where
  "processRow h rows nDays monthNum year st rowData =
     (let dateValue = cellAt rowData 3;
          startTime = cellAt rowData 5;
          hours = cellAt rowData 7
      in if truthy dateValue \<and> truthy startTime \<and> truthy hours then
           (case newDate h dateValue of
              None \<Rightarrow> st
            | Some bookingDate \<Rightarrow>
                (let bookingDay = getDate bookingDate;
                     bookingMonth = getMonth bookingDate + 1;
                     bookingYear = getFullYear bookingDate
                 in if bookingMonth = monthNum \<and> bookingYear = year then
                      (let hour = startHour h startTime;
                           hourIndex = js_indexOf rows hour;
                           dayIndex = bookingDay - 1
                       in if hourIndex \<ge> 0 \<and> dayIndex \<ge> 0 \<and> dayIndex < int nDays then
                            \<lparr>dataGrid =
                               (dataGrid st)[nat hourIndex :=
                                 (dataGrid st ! nat hourIndex)[nat dayIndex :=
                                   js_plus (dataGrid st ! nat hourIndex ! nat dayIndex) hours]],
                             processedCount = processedCount st + 1\<rparr>
                          else st)
                    else st))
         else st)"

text \<open>The loop starts at the second row of the tab: the first row holds the headers.\<close>

definition aggregateBookings :: "host \<Rightarrow> int list \<Rightarrow> nat \<Rightarrow> int \<Rightarrow> int \<Rightarrow> sheet \<Rightarrow> bookings" where
  "aggregateBookings h rows nDays monthNum year sourceData =
     (let st0 = \<lparr>dataGrid = replicate (length rows) (replicate nDays (Num 0)), processedCount = 0\<rparr>
      in if lastRow sourceData > 0 \<and> lastCol sourceData > 0
         then foldl (processRow h rows nDays monthNum year) st0 (drop 1 sourceData)
         else st0)"

section \<open>Reconciliation and cell classification\<close>

text \<open>
  The text of cell E3: \<^verbatim>\<open>'OK'\<close>, or \<^verbatim>\<open>'Please Check'\<close> for a mismatch of the two totals.
  \<^verbatim>\<open>Math.abs(eTotal - e2Total) > 0.01\<close> subtracts two doubles, rounding the difference,
  and compares with the double nearest to 0.01.
\<close>

definition validationStatus :: "rat \<Rightarrow> rat \<Rightarrow> string" where
  "validationStatus eTotal e2Total =
     (if \<bar>fl (fl eTotal - fl e2Total)\<bar> > fl (1 / 100) then ''Please Check'' else ''OK'')"

text \<open>
  The conditional formatting. A cell is shown as closed when its available hours are 0.
  One variant of the script compares the grid cell itself with the available hours; the
  other reads the cell back from the sheet, where a 0 was written as the empty string,
  and compares the two as numbers (for a grid cell that holds a number).
\<close>

definition closedCell :: "rat \<Rightarrow> bool" where
  "closedCell availableHours = (availableHours = 0)"

definition maxCapacityCell :: "cell \<Rightarrow> rat \<Rightarrow> bool" where
  "maxCapacityCell cellValue availableHours =
     (cell_truthy cellValue \<and> availableHours > 0 \<and> cellValue = Num availableHours)"

definition writtenValue :: "rat \<Rightarrow> jsval" where
  "writtenValue v = (if v = 0 then JStr [] else JNum v)"

definition maxCapacityOnSheet :: "rat \<Rightarrow> rat \<Rightarrow> bool" where
  "maxCapacityOnSheet v availableHours =
     (let cellValue = writtenValue v
      in truthy cellValue \<and> availableHours > 0
         \<and> (case cellValue of JNum q \<Rightarrow> q | _ \<Rightarrow> 0) = availableHours)"

section \<open>Report generation\<close>

text \<open>
  \<^verbatim>\<open>createHoursDaysTable()\<close>, as far as the data of the report goes: the returns before the
  report, and the values the report is written from. The month digits are four decimal
  digits once the input check has passed, so \<^verbatim>\<open>parseInt\<close> of a piece is its decimal value
  (lemma \<open>parseInt_month_digits\<close>). Without a \<^verbatim>\<open>ClubInfo\<close> tab one variant of the script
  alerts and returns, as modelled here, and the other throws.
\<close>

record report =
  eTotal :: rat
  e2Total :: rat
  validation :: string
  availabilityData :: availability
  reportRows :: "int list"
  booked :: bookings

datatype outcome =
  Cancelled | InvalidInput | ClubInfoNotFound | Threw error | SourceTabNotFound | Report report

definition createHoursDaysTable :: "host \<Rightarrow> spreadsheet \<Rightarrow> bool \<Rightarrow> string \<Rightarrow> outcome" where
  "createHoursDaysTable h ss okPressed monthDigits =
     (if \<not> okPressed then Cancelled
      else if \<not> fourDigits monthDigits then InvalidInput
      else
        (let monthNum = digits_value 10 (take 2 monthDigits);
             year = digits_value 10 (''20'' @ drop 2 monthDigits)
         in case clubInfoTab ss of
              None \<Rightarrow> ClubInfoNotFound
            | Some ci \<Rightarrow>
                (case calculateAvailableHours h (Some ci) monthNum year of
                   Inl e \<Rightarrow> Threw e
                 | Inr avail \<Rightarrow>
                     (case tabs ss (monthDigits @ ''e_2'') of
                        None \<Rightarrow> SourceTabNotFound
                      | Some sourceSheet \<Rightarrow>
                          (let et = (case tabs ss (monthDigits @ ''e'') of
                                       Some eSheet \<Rightarrow> sumColumnH eSheet
                                     | None \<Rightarrow> 0);
                               e2t = sumColumnH sourceSheet;
                               rows = (if timeRows avail = [] then [8 .. 23] else timeRows avail)
                           in Report
                                \<lparr>eTotal = et, e2Total = e2t,
                                 validation = validationStatus et e2t,
                                 availabilityData = avail,
                                 reportRows = rows,
                                 booked = aggregateBookings h rows (daysInMonth avail) monthNum year sourceSheet\<rparr>)))))"

section \<open>Example data\<close>

text \<open>
  A host whose renderings are empty and that takes no cell for a date; a club open
  Monday to Friday from 9:00 to 17:00 with two courts; a club whose only schedule row
  cannot be parsed; a grid layout that closes at midnight on Sunday and Monday; and a
  spreadsheet for February 2025.
\<close>

definition plainHost :: host where
  "plainHost = \<lparr>numberToString = (\<lambda>q. []), dateToString = (\<lambda>d. []), parseDate = (\<lambda>v. None)\<rparr>"

definition weekdayClub :: clubinfo where
  "weekdayClub =
     \<lparr>clubName = JStr ''Club'', maxHoursPerHour = 2,
      openingHoursData =
        [(JStr ''Monday'', JStr ''09:00-17:00''), (JStr ''Tuesday'', JStr ''09:00-17:00''),
         (JStr ''Wednesday'', JStr ''09:00-17:00''), (JStr ''Thursday'', JStr ''09:00-17:00''),
         (JStr ''Friday'', JStr ''09:00-17:00'')],
      openingHoursRange = (\<lambda>r c. JStr [])\<rparr>"

definition unparsedClub :: clubinfo where
  "unparsedClub =
     \<lparr>clubName = JStr ''Club'', maxHoursPerHour = 2,
      openingHoursData = [(JStr ''Monday'', JStr ''closed'')],
      openingHoursRange = (\<lambda>r c. JStr [])\<rparr>"

definition emptyClub :: clubinfo where
  "emptyClub =
     \<lparr>clubName = JStr [], maxHoursPerHour = 2,
      openingHoursData = replicate 17 (JStr [], JStr []),
      openingHoursRange = (\<lambda>r c. JStr [])\<rparr>"

definition midnightCells :: "nat \<Rightarrow> nat \<Rightarrow> jsval" where
  "midnightCells r c =
     (if r = 1 then JStr ''8:00''
      else if r = 2 \<and> c = 1 then JStr ''24:00''
      else if r = 2 \<and> c = 2 then JStr ''00:00''
      else JStr ''22:00'')"

definition midnightClub :: clubinfo where
  "midnightClub =
     \<lparr>clubName = JStr ''Club'', maxHoursPerHour = 2,
      openingHoursData = [], openingHoursRange = midnightCells\<rparr>"

definition headerRow :: "jsval list" where
  "headerRow = map JStr [''Name'', ''Court'', ''Type'', ''Date'', ''Day'', ''Start'', ''End'', ''Hours'']"

definition bookingRow :: "jsval \<Rightarrow> jsval \<Rightarrow> jsval \<Rightarrow> jsval list" where
  "bookingRow dateValue startTime hours =
     [JStr [], JStr [], JStr [], dateValue, JStr [], startTime, JStr [], hours]"

definition febBook :: spreadsheet where
  "febBook =
     \<lparr>clubInfoTab = Some weekdayClub,
      tabs = (\<lambda>name.
        if name = ''0225e_2''
        then Some [headerRow,
                   bookingRow (JDate (JsDate 2025 1 3 0)) (JNum (3 / 8)) (JNum 5),
                   bookingRow (JDate (JsDate 2025 1 4 0)) (JStr ''10:00 am'') (JNum 2)]
        else if name = ''0225e''
        then Some [headerRow, bookingRow (JDate (JsDate 2025 1 3 0)) (JNum (3 / 8)) (JNum 8)]
        else None)\<rparr>"

text \<open>The hour rows of a result, for statements about a concrete run.\<close>

definition resultRows :: "error + availability \<Rightarrow> int list" where
  "resultRows res = (case res of Inr r \<Rightarrow> timeRows r | Inl e \<Rightarrow> [])"

section \<open>Properties of rounding\<close>

text \<open>An integer below \<open>2 ^ 53\<close> in absolute value is a double: rounding leaves it as it is.\<close>

lemma half_even_of_int: "half_even (of_int z) = z"
  by (simp add: half_even_def)

lemma binade_of_int:
  assumes "n \<noteq> 0"
  shows "binade (of_int n) = bitlen \<bar>n\<bar> - 1"
proof -
  from assms have pos: "0 < \<bar>n\<bar>" by simp
  have q: "quotient_of \<bar>of_int n :: rat\<bar> = (\<bar>n\<bar>, 1)"
    by (metis of_int_abs quotient_of_int Rat.of_int_def)
  have one: "bitlen 1 = 1"
    by (simp add: bitlen_alt_def)
  from bitlen_bounds [OF pos] have "2 ^ nat (bitlen \<bar>n\<bar> - 1) \<le> \<bar>n\<bar>" ..
  moreover from pos have nn: "0 \<le> bitlen \<bar>n\<bar> - 1"
    by (auto simp: bitlen_alt_def)
  ultimately have "(2::rat) powi (bitlen \<bar>n\<bar> - 1) \<le> \<bar>of_int n\<bar>"
    by (metis (no_types) of_int_abs of_int_le_iff of_int_numeral of_int_power power_int_def)
  then show ?thesis
    unfolding binade_def q by (simp add: one)
qed

lemma fl_of_int:
  assumes "\<bar>n\<bar> < 2 ^ 53"
  shows "fl (of_int n) = of_int n"
proof (cases "n = 0")
  case True
  then show ?thesis by (simp add: fl_def)
next
  case False
  then have pos: "0 < \<bar>n\<bar>" by simp
  define k where "k = nat (52 - (bitlen \<bar>n\<bar> - 1))"
  from pos have lo: "0 \<le> bitlen \<bar>n\<bar> - 1" by (auto simp: bitlen_alt_def)
  from assms have hi: "bitlen \<bar>n\<bar> \<le> 53"
    by (simp add: bitlen_le_iff_power)
  have e: "max (binade (of_int n)) (- 1022) - 52 = - int k"
    using lo hi by (simp add: binade_of_int [OF False] k_def)
  have u: "(2::rat) powi (- int k) = 1 / 2 ^ k"
    by (simp add: power_int_minus field_simps)
  have m: "(of_int n :: rat) / (1 / 2 ^ k) = of_int (n * 2 ^ k)"
    by simp
  show ?thesis
    using False unfolding fl_def Let_def e u m half_even_of_int by simp
qed

lemma fl_small:
  "fl 0 = 0" "fl 1 = 1"
  "numeral k < (2::int) ^ 53 \<Longrightarrow> fl (numeral k) = numeral k"
  "numeral k < (2::int) ^ 53 \<Longrightarrow> fl (- numeral k) = - numeral k"
  using fl_of_int [of 0] fl_of_int [of 1] fl_of_int [of "numeral k"] fl_of_int [of "- numeral k"]
  by simp_all

text \<open>
  Rounding is monotone and commutes with negation. The binary exponent \<open>binade x\<close> of a
  number other than 0 is the one with \<open>2 powi binade x \<le> \<bar>x\<bar> < 2 powi (binade x + 1)\<close>.
\<close>

lemma half_even_bounds: "\<lfloor>m\<rfloor> \<le> half_even m" "half_even m \<le> \<lfloor>m\<rfloor> + 1"
  by (simp_all add: half_even_def Let_def)

lemma half_even_mono: "m \<le> m' \<Longrightarrow> half_even m \<le> half_even m'"
proof -
  assume le: "m \<le> m'"
  have f: "\<lfloor>m\<rfloor> \<le> \<lfloor>m'\<rfloor>" using le by (rule floor_mono)
  show ?thesis
  proof (cases "\<lfloor>m\<rfloor> = \<lfloor>m'\<rfloor>")
    case True
    then show ?thesis using le by (auto simp add: half_even_def Let_def)
  next
    case False
    with f have "\<lfloor>m\<rfloor> + 1 \<le> \<lfloor>m'\<rfloor>" by simp
    with half_even_bounds(2)[of m] half_even_bounds(1)[of m'] show ?thesis by linarith
  qed
qed

lemma half_even_uminus: "half_even (- m) = - half_even m"
proof (cases "m = of_int \<lfloor>m\<rfloor>")
  case True
  then have "half_even m = \<lfloor>m\<rfloor>" "half_even (- m) = - \<lfloor>m\<rfloor>"
    using half_even_of_int [of "\<lfloor>m\<rfloor>"] half_even_of_int [of "- \<lfloor>m\<rfloor>"] by simp_all
  then show ?thesis by simp
next
  case False
  have "\<lfloor>- m\<rfloor> = - \<lceil>m\<rceil>" by (simp add: ceiling_def)
  with False have f: "\<lfloor>- m\<rfloor> = - \<lfloor>m\<rfloor> - 1" by (simp add: ceiling_altdef)
  show ?thesis
    unfolding half_even_def Let_def f by (auto simp add: algebra_simps)
qed

lemma two_powi_nat: "0 \<le> k \<Longrightarrow> (2::rat) ^ nat k = 2 powi k"
  by (simp add: power_int_def)

lemma bitlen_rat_bounds:
  assumes "0 < p"
  shows "(2::rat) powi (bitlen p - 1) \<le> of_int p" "of_int p < (2::rat) powi bitlen p"
proof -
  from assms have b: "1 \<le> bitlen p"
    using bitlen_eq_zero_iff [of p] bitlen_nonneg [of p] by linarith
  from bitlen_bounds [OF assms] have lo: "2 ^ nat (bitlen p - 1) \<le> p" and hi: "p < 2 ^ nat (bitlen p)"
    by simp_all
  from lo have "(of_int (2 ^ nat (bitlen p - 1)) :: rat) \<le> of_int p" by (simp only: of_int_le_iff)
  then show "(2::rat) powi (bitlen p - 1) \<le> of_int p"
    using b by (simp add: two_powi_nat [symmetric])
  from hi have "(of_int p :: rat) < of_int (2 ^ nat (bitlen p))" by (simp only: of_int_less_iff)
  then show "of_int p < (2::rat) powi bitlen p"
    using b by (simp add: two_powi_nat [symmetric])
qed

lemma binade_bounds:
  assumes "x \<noteq> 0"
  shows "2 powi binade x \<le> \<bar>x\<bar>" "\<bar>x\<bar> < 2 powi (binade x + 1)"
proof -
  obtain p q where pq: "quotient_of \<bar>x\<bar> = (p, q)" by (cases "quotient_of \<bar>x\<bar>")
  have q: "0 < q" using quotient_of_denom_pos [OF pq] .
  have x: "\<bar>x\<bar> = of_int p / of_int q" using quotient_of_div [OF pq] .
  have "0 < \<bar>x\<bar>" using assms by simp
  with x q have p: "0 < p" by (simp add: zero_less_divide_iff)
  let ?e = "bitlen p - bitlen q"
  note P = bitlen_rat_bounds [OF p] and Q = bitlen_rat_bounds [OF q]
  have pos: "\<And>k. (0::rat) < 2 powi k" by simp
  have "(2::rat) powi (?e - 1) = 2 powi (bitlen p - 1) / 2 powi bitlen q"
    using power_int_diff [of "2::rat" "bitlen p - 1" "bitlen q"] by (simp add: algebra_simps)
  also have "\<dots> \<le> of_int p / of_int q"
    using P(1) Q(2) q p by (intro frac_le) simp_all
  finally have lower: "(2::rat) powi (?e - 1) \<le> \<bar>x\<bar>" using x by simp
  have "of_int p / of_int q < (2::rat) powi bitlen p / 2 powi (bitlen q - 1)"
    using P(2) Q(1) q p pos by (intro frac_less) simp_all
  also have "\<dots> = 2 powi (?e + 1)"
    using power_int_diff [of "2::rat" "bitlen p" "bitlen q - 1"] by (simp add: algebra_simps)
  finally have upper: "\<bar>x\<bar> < (2::rat) powi (?e + 1)" using x by simp
  have b: "binade x = (if 2 powi ?e \<le> \<bar>x\<bar> then ?e else ?e - 1)"
    by (simp add: binade_def pq Let_def)
  show "2 powi binade x \<le> \<bar>x\<bar>" using lower by (simp add: b)
  show "\<bar>x\<bar> < 2 powi (binade x + 1)" using upper by (auto simp add: b not_le)
qed

lemma binade_unique:
  assumes "2 powi e \<le> \<bar>x\<bar>" "\<bar>x\<bar> < 2 powi (e + 1)"
  shows "binade x = e"
proof -
  have e: "(0::rat) < 2 powi e" by simp
  have "0 < \<bar>x\<bar>" by (rule less_le_trans [OF e assms(1)])
  then have x: "x \<noteq> 0" by simp
  note B = binade_bounds [OF x]
  have "(2::rat) powi e < 2 powi (binade x + 1)" using assms(1) B(2) by linarith
  then have 1: "e < binade x + 1"
    using power_int_increasing [of "binade x + 1" e "2::rat"] by (cases "e < binade x + 1") auto
  have "(2::rat) powi binade x < 2 powi (e + 1)" using assms(2) B(1) by linarith
  then have 2: "binade x < e + 1"
    using power_int_increasing [of "e + 1" "binade x" "2::rat"] by (cases "binade x < e + 1") auto
  from 1 2 show ?thesis by simp
qed

lemma binade_mono:
  assumes "x \<noteq> 0" "\<bar>x\<bar> \<le> \<bar>y\<bar>"
  shows "binade x \<le> binade y"
proof -
  have y: "y \<noteq> 0" using assms by auto
  have "(2::rat) powi binade x < 2 powi (binade y + 1)"
    using binade_bounds(1) [OF assms(1)] binade_bounds(2) [OF y] assms(2) by linarith
  then have "binade x < binade y + 1"
    using power_int_increasing [of "binade y + 1" "binade x" "2::rat"] by (cases "binade x < binade y + 1") auto
  then show ?thesis by simp
qed

lemma two_powi_int: "0 \<le> n \<Longrightarrow> (2::rat) powi n = of_int (2 ^ nat n)"
  by (simp add: power_int_def)

lemma fl_nonzero:
  "x \<noteq> 0 \<Longrightarrow> fl x = of_int (half_even (x / 2 powi (max (binade x) (- 1022) - 52)))
                     * 2 powi (max (binade x) (- 1022) - 52)"
  by (simp add: fl_def Let_def)

lemma binade_uminus: "binade (- x) = binade x"
  by (simp add: binade_def)

lemma fl_uminus: "fl (- x) = - fl x"
  by (simp add: fl_def Let_def binade_uminus half_even_uminus)

lemma fl_nonneg:
  assumes "0 \<le> x"
  shows "0 \<le> fl x"
proof (cases "x = 0")
  case True
  then show ?thesis by (simp add: fl_def)
next
  case False
  let ?u = "(2::rat) powi (max (binade x) (- 1022) - 52)"
  have u: "0 < ?u" by simp
  have "0 \<le> x / ?u" using assms u by simp
  then have "0 \<le> \<lfloor>x / ?u\<rfloor>" by simp
  with half_even_bounds(1) [of "x / ?u"] have "0 \<le> half_even (x / ?u)" by linarith
  then show ?thesis using u by (simp add: fl_nonzero [OF False])
qed

lemma fl_le_power:
  assumes "0 < x" "x \<le> 2 powi k" "max (binade x) (- 1022) \<le> k + 52"
  shows "fl x \<le> 2 powi k"
proof -
  let ?e = "max (binade x) (- 1022)"
  let ?u = "(2::rat) powi (?e - 52)"
  have u: "0 < ?u" by simp
  have n: "0 \<le> k - (?e - 52)" using assms(3) by arith
  have "x / ?u \<le> 2 powi k / ?u" using assms(2) u by (simp add: divide_right_mono)
  also have "\<dots> = 2 powi (k - (?e - 52))"
    using power_int_diff [of "2::rat" k "?e - 52"] by simp
  also have "\<dots> = of_int (2 ^ nat (k - (?e - 52)))" using n by (rule two_powi_int)
  finally have "half_even (x / ?u) \<le> 2 ^ nat (k - (?e - 52))"
    using half_even_mono [of "x / ?u" "of_int (2 ^ nat (k - (?e - 52)))"] by (simp only: half_even_of_int)
  then have "(of_int (half_even (x / ?u)) :: rat) \<le> of_int (2 ^ nat (k - (?e - 52)))"
    by (simp only: of_int_le_iff)
  then have "of_int (half_even (x / ?u)) * ?u \<le> of_int (2 ^ nat (k - (?e - 52))) * ?u"
    by (rule mult_right_mono) (rule less_imp_le [OF u])
  also have "of_int (2 ^ nat (k - (?e - 52))) * ?u = 2 powi (k - (?e - 52)) * ?u"
    using n by (simp only: two_powi_int)
  also have "\<dots> = 2 powi k"
    using power_int_add [of "2::rat" "k - (?e - 52)" "?e - 52"] by simp
  finally show ?thesis using assms(1) by (simp add: fl_nonzero)
qed

lemma fl_ge_power:
  assumes "0 < x" "- 1022 \<le> binade x"
  shows "2 powi binade x \<le> fl x"
proof -
  let ?e = "binade x"
  let ?u = "(2::rat) powi (?e - 52)"
  have m: "max (binade x) (- 1022) = ?e" using assms(2) by simp
  have u: "0 < ?u" by simp
  have "2 powi ?e \<le> x" using binade_bounds(1) [of x] assms(1) by simp
  then have "2 powi ?e / ?u \<le> x / ?u" using u by (simp add: divide_right_mono)
  moreover have "2 powi ?e / ?u = 2 powi 52"
    using power_int_diff [of "2::rat" ?e "?e - 52"] by simp
  moreover have "(2::rat) powi 52 = of_int (2 ^ 52)" by (simp add: power_int_def)
  ultimately have "(of_int (2 ^ 52) :: rat) \<le> x / ?u" by simp
  then have "2 ^ 52 \<le> half_even (x / ?u)"
    using half_even_mono [of "of_int (2 ^ 52)" "x / ?u"] by (simp only: half_even_of_int)
  then have h: "(of_int (2 ^ 52) :: rat) \<le> of_int (half_even (x / ?u))"
    by (simp only: of_int_le_iff)
  have "2 powi ?e = 2 powi 52 * ?u"
    using power_int_add [of "2::rat" 52 "?e - 52"] by simp
  also have "\<dots> = of_int (2 ^ 52) * ?u" by (simp add: power_int_def)
  also have "\<dots> \<le> of_int (half_even (x / ?u)) * ?u"
    using h by (rule mult_right_mono) (rule less_imp_le [OF u])
  finally have "2 powi ?e \<le> of_int (half_even (x / ?u)) * ?u" .
  then show ?thesis using assms(1) by (simp add: fl_nonzero m)
qed

lemma fl_mono_pos:
  assumes "0 < x" "x \<le> y"
  shows "fl x \<le> fl y"
proof -
  let ?ex = "max (binade x) (- 1022)"
  let ?ey = "max (binade y) (- 1022)"
  have y: "0 < y" using assms by simp
  have "binade x \<le> binade y" using binade_mono [of x y] assms by simp
  then have exy: "?ex \<le> ?ey" by simp
  show ?thesis
  proof (cases "?ex = ?ey")
    case True
    let ?u = "(2::rat) powi (?ey - 52)"
    have u: "0 < ?u" by simp
    have "x / ?u \<le> y / ?u" using assms(2) u by (simp add: divide_right_mono)
    then have "half_even (x / ?u) \<le> half_even (y / ?u)" by (rule half_even_mono)
    then have "(of_int (half_even (x / ?u)) :: rat) \<le> of_int (half_even (y / ?u))"
      by (simp only: of_int_le_iff)
    then have "of_int (half_even (x / ?u)) * ?u \<le> of_int (half_even (y / ?u)) * ?u"
      by (rule mult_right_mono) (rule less_imp_le [OF u])
    moreover have "fl x = of_int (half_even (x / ?u)) * ?u"
      using assms(1) by (simp only: fl_nonzero True)
    moreover have "fl y = of_int (half_even (y / ?u)) * ?u"
      using y by (simp only: fl_nonzero)
    ultimately show ?thesis by simp
  next
    case False
    with exy have lt: "?ex + 1 \<le> ?ey" by simp
    then have biny: "binade y = ?ey" "- 1022 \<le> binade y" by auto
    have "x < 2 powi (binade x + 1)" using binade_bounds(2) [of x] assms(1) by simp
    also have "\<dots> \<le> 2 powi (?ex + 1)" by (intro power_int_increasing) simp_all
    finally have "x \<le> 2 powi (?ex + 1)" by simp
    then have "fl x \<le> 2 powi (?ex + 1)" using assms(1) by (intro fl_le_power) simp_all
    also have "\<dots> \<le> 2 powi ?ey" using lt by (intro power_int_increasing) simp_all
    also have "\<dots> = 2 powi binade y" using biny(1) by simp
    also have "\<dots> \<le> fl y" using y biny(2) by (rule fl_ge_power)
    finally show ?thesis .
  qed
qed

lemma fl_mono:
  assumes "x \<le> y"
  shows "fl x \<le> fl y"
proof -
  consider "0 < x" | "x \<le> 0" "0 \<le> y" | "y < 0" by linarith
  then show ?thesis
  proof cases
    case 1
    then show ?thesis using assms by (rule fl_mono_pos)
  next
    case 2
    then have "0 \<le> fl (- x)" "0 \<le> fl y" by (simp_all add: fl_nonneg)
    then show ?thesis by (simp add: fl_uminus)
  next
    case 3
    then have "fl (- y) \<le> fl (- x)" using assms by (intro fl_mono_pos) simp_all
    then show ?thesis by (simp add: fl_uminus)
  qed
qed

lemma fl_abs: "fl \<bar>x\<bar> = \<bar>fl x\<bar>"
proof (cases "0 \<le> x")
  case True
  then show ?thesis using fl_nonneg [of x] by simp
next
  case False
  then have "0 \<le> fl (- x)" by (intro fl_nonneg) simp
  then show ?thesis using False by (simp add: fl_uminus)
qed

section \<open>Properties of time parsing\<close>

lemmas time_eval =
  parseHourFromTime_def js_trim_def is_space_def ampm_at_def is_digit_def minutes_spaces_ampm_def
  ampm_here_def hour_at_def digits_value_def hex_val_def isPM_def js_parseInt_def digit_in_def
  formatTimeAMPM_def js_number_toString_def nat_digits.simps fl_small

text \<open>
  \<^verbatim>\<open>parseInt\<close> of a string of at most 15 decimal digits is its decimal value, which is
  a double; the groups of the two regular expressions and the pieces of the month digits
  are such strings.
\<close>

lemma is_digit_cases:
  "is_digit c \<Longrightarrow> c = CHR ''0'' \<or> c = CHR ''1'' \<or> c = CHR ''2'' \<or> c = CHR ''3'' \<or> c = CHR ''4''
     \<or> c = CHR ''5'' \<or> c = CHR ''6'' \<or> c = CHR ''7'' \<or> c = CHR ''8'' \<or> c = CHR ''9''"
  by (simp add: is_digit_def)

lemma is_digit_facts:
  assumes "is_digit c"
  shows "\<not> is_space c \<and> c \<noteq> CHR ''-'' \<and> c \<noteq> CHR ''+'' \<and> c \<noteq> CHR ''x'' \<and> c \<noteq> CHR ''X'' \<and> digit_in 10 c"
  using is_digit_cases [OF assms]
  by (elim disjE; hypsubst; simp add: is_space_def digit_in_def hex_val_def)

lemma digit_value_bound:
  "is_digit c \<Longrightarrow> (case hex_val c of Some v \<Rightarrow> v | None \<Rightarrow> 0) \<le> 9"
proof -
  assume "is_digit c"
  then have "c = CHR ''0'' \<or> c = CHR ''1'' \<or> c = CHR ''2'' \<or> c = CHR ''3'' \<or> c = CHR ''4''
     \<or> c = CHR ''5'' \<or> c = CHR ''6'' \<or> c = CHR ''7'' \<or> c = CHR ''8'' \<or> c = CHR ''9''"
    by (simp add: is_digit_def)
  then show ?thesis
    by (elim disjE; hypsubst; simp add: hex_val_def)
qed

lemma digits_value_snoc:
  "digits_value 10 (s @ [c]) = digits_value 10 s * 10 + int (case hex_val c of Some v \<Rightarrow> v | None \<Rightarrow> 0)"
  by (simp add: digits_value_def)

lemma digits_value_bound:
  "list_all is_digit s \<Longrightarrow> 0 \<le> digits_value 10 s \<and> digits_value 10 s < 10 ^ length s"
proof (induction s rule: rev_induct)
  case Nil
  then show ?case by (simp add: digits_value_def)
next
  case (snoc c s)
  then have ih: "0 \<le> digits_value 10 s" "digits_value 10 s < 10 ^ length s" and c: "is_digit c"
    by simp_all
  from digit_value_bound [OF c] have v: "int (case hex_val c of Some v \<Rightarrow> v | None \<Rightarrow> 0) \<le> 9"
    by simp
  from ih(2) have "digits_value 10 s + 1 \<le> 10 ^ length s" by simp
  then have "(digits_value 10 s + 1) * 10 \<le> 10 ^ length s * 10" by simp
  with ih(1) v show ?case
    unfolding digits_value_snoc by (simp add: algebra_simps)
qed

lemma parseInt_digits:
  assumes "s \<noteq> []" "list_all is_digit s" "length s \<le> 15"
  shows "js_parseInt s = Some (digits_value 10 s)"
proof -
  from assms obtain c cs where s: "s = c # cs" and c: "is_digit c" and cs: "list_all is_digit cs"
    by (cases s) auto
  note fc = is_digit_facts [OF c]
  have nohex: "(take 2 s = ''0x'' \<or> take 2 s = ''0X'') = False"
  proof (cases cs)
    case Nil
    with s show ?thesis by simp
  next
    case (Cons c2 cs2)
    with cs have "is_digit c2" by simp
    from is_digit_facts [OF this] Cons s show ?thesis by simp
  qed
  have all: "takeWhile (digit_in 10) s = s"
    unfolding takeWhile_eq_all_conv using assms(2) is_digit_facts by (simp add: list_all_iff)
  have d: "dropWhile is_space s = s"
    using s fc by simp
  have neg: "(case s of c # _ \<Rightarrow> c = CHR ''-'' | [] \<Rightarrow> False) = False"
    using s fc by simp
  have s2: "(case s of c # cs \<Rightarrow> if c = CHR ''-'' \<or> c = CHR ''+'' then cs else s | [] \<Rightarrow> s) = s"
    using s fc by simp
  from digits_value_bound [OF assms(2)]
  have "0 \<le> digits_value 10 s" "digits_value 10 s < 10 ^ length s" by simp_all
  moreover from assms(3) have "(10::int) ^ length s \<le> 10 ^ 15"
    by (intro power_increasing) simp_all
  ultimately have "\<bar>digits_value 10 s\<bar> < 2 ^ 53" by simp
  then have exact: "\<lfloor>fl (of_int (digits_value 10 s))\<rfloor> = digits_value 10 s"
    by (simp add: fl_of_int)
  show ?thesis
    unfolding js_parseInt_def Let_def d neg s2 nohex if_False all exact
    using assms(1) by simp
qed

lemma ampm_at_group:
  "ampm_at r = Some (g1, g3) \<Longrightarrow> g1 \<noteq> [] \<and> list_all is_digit g1 \<and> length g1 \<le> 2"
  by (auto simp add: ampm_at_def split: list.splits if_splits option.splits)

lemma ampmMatch_group:
  "ampmMatch s = Some (g1, g3) \<Longrightarrow> g1 \<noteq> [] \<and> list_all is_digit g1 \<and> length g1 \<le> 2"
  by (induction s) (auto split: option.splits dest: ampm_at_group)

lemma hour_at_group:
  assumes "hour_at r = Some g1"
  shows "g1 \<noteq> [] \<and> list_all is_digit g1 \<and> length g1 \<le> 2"
proof (cases r)
  case Nil
  with assms show ?thesis by (simp add: hour_at_def)
next
  case r1: (Cons d1 r1)
  show ?thesis
  proof (cases r1)
    case Nil
    with assms r1 show ?thesis by (simp add: hour_at_def)
  next
    case r2: (Cons d2 r2)
    show ?thesis
    proof (cases r2)
      case Nil
      with assms r1 r2 show ?thesis by (auto simp add: hour_at_def split: if_splits)
    next
      case (Cons c r3)
      with assms r1 r2 show ?thesis by (auto simp add: hour_at_def split: if_splits)
    qed
  qed
qed

lemma hourMatch_group:
  "hourMatch s = Some g1 \<Longrightarrow> g1 \<noteq> [] \<and> list_all is_digit g1 \<and> length g1 \<le> 2"
  by (induction s) (auto split: option.splits dest: hour_at_group)

lemma parseInt_of_groups:
  "ampmMatch s = Some (g1, g3) \<Longrightarrow> js_parseInt g1 = Some (digits_value 10 g1)"
  "hourMatch s = Some g \<Longrightarrow> js_parseInt g = Some (digits_value 10 g)"
proof -
  show "js_parseInt g1 = Some (digits_value 10 g1)" if "ampmMatch s = Some (g1, g3)"
    using ampmMatch_group [OF that] by (intro parseInt_digits) simp_all
  show "js_parseInt g = Some (digits_value 10 g)" if "hourMatch s = Some g"
    using hourMatch_group [OF that] by (intro parseInt_digits) simp_all
qed

lemma parseInt_month_digits:
  assumes "fourDigits monthDigits"
  shows "js_parseInt (take 2 monthDigits) = Some (digits_value 10 (take 2 monthDigits))"
    and "js_parseInt (''20'' @ drop 2 monthDigits) = Some (digits_value 10 (''20'' @ drop 2 monthDigits))"
proof -
  from assms have len: "length monthDigits = 4" and all: "list_all is_digit monthDigits"
    by (simp_all add: fourDigits_def)
  from len have "take 2 monthDigits \<noteq> []" by auto
  moreover from all have "list_all is_digit (take 2 monthDigits)"
    by (auto simp add: list_all_iff dest: in_set_takeD)
  ultimately show "js_parseInt (take 2 monthDigits) = Some (digits_value 10 (take 2 monthDigits))"
    by (intro parseInt_digits) simp_all
  have "is_digit (CHR ''2'')" "is_digit (CHR ''0'')"
    by (simp_all add: is_digit_def)
  with all have "list_all is_digit (''20'' @ drop 2 monthDigits)"
    by (auto simp add: list_all_iff dest: in_set_dropD)
  with len show "js_parseInt (''20'' @ drop 2 monthDigits) = Some (digits_value 10 (''20'' @ drop 2 monthDigits))"
    by (intro parseInt_digits) simp_all
qed

lemma roundtrip_hours:
  assumes "0 \<le> hour" "hour \<le> 23"
  shows "parseHourFromTime h (JStr (formatTimeAMPM h hour)) = hour"
proof -
  from assms have "hour = 0 \<or> hour = 1 \<or> hour = 2 \<or> hour = 3 \<or> hour = 4 \<or> hour = 5
      \<or> hour = 6 \<or> hour = 7 \<or> hour = 8 \<or> hour = 9 \<or> hour = 10 \<or> hour = 11
      \<or> hour = 12 \<or> hour = 13 \<or> hour = 14 \<or> hour = 15 \<or> hour = 16 \<or> hour = 17
      \<or> hour = 18 \<or> hour = 19 \<or> hour = 20 \<or> hour = 21 \<or> hour = 22 \<or> hour = 23"
    by arith
  then show ?thesis
    by (elim disjE; hypsubst; simp add: time_eval)
qed

text \<open>
  Claim C6. For every hour from 0 to 23, \<^verbatim>\<open>parseHourFromTime\<close> applied to the label that
  \<^verbatim>\<open>formatTimeAMPM\<close> produces gives the hour back; the labels of 0 and 12 are
  \<^verbatim>\<open>12AM\<close> and \<^verbatim>\<open>12PM\<close>, which parse to 0 and 12.
\<close>

theorem format_parse_roundtrip:
  "(0 \<le> hour \<and> hour \<le> 23 \<longrightarrow> parseHourFromTime h (JStr (formatTimeAMPM h hour)) = hour)
   \<and> formatTimeAMPM h 0 = ''12AM'' \<and> parseHourFromTime h (JStr ''12AM'') = 0
   \<and> formatTimeAMPM h 12 = ''12PM'' \<and> parseHourFromTime h (JStr ''12PM'') = 12"
proof -
  have "parseHourFromTime h (JStr (formatTimeAMPM h hour)) = hour" if "0 \<le> hour" "hour \<le> 23"
    using that by (rule roundtrip_hours)
  moreover have "formatTimeAMPM h 0 = ''12AM''" "parseHourFromTime h (JStr ''12AM'') = 0"
    "formatTimeAMPM h 12 = ''12PM''" "parseHourFromTime h (JStr ''12PM'') = 12"
    by (simp_all add: time_eval)
  ultimately show ?thesis by blast
qed

theorem format_parse_roundtrip_witness:
  "(0::int) \<le> 21 \<and> (21::int) \<le> 23 \<and> formatTimeAMPM plainHost 21 = ''9PM''
   \<and> parseHourFromTime plainHost (JStr (formatTimeAMPM plainHost 21)) = 21"
proof -
  have "formatTimeAMPM plainHost 21 = ''9PM''" by (simp add: time_eval)
  with format_parse_roundtrip [of 21 plainHost] show ?thesis by simp
qed

text \<open>On a \<^verbatim>\<open>Date\<close> and on a falsy value the result is an hour of the day.\<close>

lemma parseHourFromTime_typed_range:
  "0 \<le> getHours d \<Longrightarrow> getHours d \<le> 23 \<Longrightarrow>
     0 \<le> parseHourFromTime h (JDate d) \<and> parseHourFromTime h (JDate d) \<le> 23"
  "\<not> truthy v \<Longrightarrow> parseHourFromTime h v = 0"
proof -
  show "0 \<le> parseHourFromTime h (JDate d) \<and> parseHourFromTime h (JDate d) \<le> 23"
    if "0 \<le> getHours d" "getHours d \<le> 23"
    using that by (simp add: parseHourFromTime_def)
  show "parseHourFromTime h v = 0" if "\<not> truthy v"
    using that by (cases v) (simp_all add: parseHourFromTime_def fl_small)
qed

text \<open>The number branch: the product with 24 is rounded, then floored.\<close>

lemma parseHourFromTime_number:
  "parseHourFromTime h (JNum q) = \<lfloor>fl (fl q * 24)\<rfloor>"
  by (simp add: parseHourFromTime_def)

lemma hours_of_fractions:
  "\<lfloor>fl (fl (3 / 2) * 24)\<rfloor> = 36" "\<lfloor>fl (fl (- 1 / 2) * 24)\<rfloor> = - 12"
  by code_simp+

text \<open>
  Claim C2. \<^verbatim>\<open>parseHourFromTime\<close> is documented to return an hour from 0 to 23 for
  every time value. It checks no range and does not hold that: the 24-hour string
  \<^verbatim>\<open>24:00\<close> gives 24, the bare integers \<^verbatim>\<open>30\<close> and \<^verbatim>\<open>-3\<close> give 30 and -3, the string
  \<^verbatim>\<open>13PM\<close> gives 25, and the numbers 1.5 and -0.5 give 36 and -12.
\<close>

theorem parseHourFromTime_out_of_range:
  "parseHourFromTime h (JStr ''24:00'') = 24
   \<and> parseHourFromTime h (JStr ''30'') = 30
   \<and> parseHourFromTime h (JStr ''-3'') = - 3
   \<and> parseHourFromTime h (JStr ''13PM'') = 25
   \<and> parseHourFromTime h (JNum (3 / 2)) = 36
   \<and> parseHourFromTime h (JNum (- 1 / 2)) = - 12"
proof -
  have strings: "parseHourFromTime h (JStr ''24:00'') = 24" "parseHourFromTime h (JStr ''30'') = 30"
    "parseHourFromTime h (JStr ''-3'') = - 3" "parseHourFromTime h (JStr ''13PM'') = 25"
    by (simp_all add: time_eval)
  have numbers: "parseHourFromTime h (JNum (3 / 2)) = 36" "parseHourFromTime h (JNum (- 1 / 2)) = - 12"
    by (simp_all only: parseHourFromTime_number hours_of_fractions)
  from strings numbers show ?thesis by (intro conjI)
qed

section \<open>Opening hours\<close>

lemma traditionalCloseHour_midnight:
  "traditionalCloseHour ''24:00'' = Some 24" "traditionalCloseHour ''00:00'' = Some 24"
  by (simp_all add: traditionalCloseHour_def first_part_def time_eval)

lemma gridCloseHour_midnight:
  "gridCloseHour h (JStr ''24:00'') = 24" "gridCloseHour h (JStr ''00:00'') = 24"
  by (simp_all add: gridCloseHour_def time_eval)

lemma store_hours_lookup:
  "key \<noteq> JStr ''__proto__'' \<Longrightarrow>
   map_of (dayOpeningHours (store_hours st key oh ch)) key = Some \<lparr>opens = oh, closes = ch\<rparr>"
  by (simp add: store_hours_def set_day_def)

lemma parseTraditionalRow_midnight:
  assumes "truthy dayLabel" "truthy hoursString"
    and "js_split (CHR ''-'') (js_toString h hoursString) = [p0, p1]"
    and "js_trim p1 = ''24:00'' \<or> js_trim p1 = ''00:00''"
    and "js_parseInt (first_part (CHR '':'') (js_trim p0)) = Some oh"
  shows "parseTraditionalRow h st (dayLabel, hoursString) = store_hours st dayLabel oh 24"
  using assms traditionalCloseHour_midnight
  by (auto simp add: parseTraditionalRow_def Let_def)

lemma parseGrid_lookup:
  assumes "i < 7"
  shows "map_of (dayOpeningHours (foldl (parseGridDay h cells) st [0 ..< 7])) (JStr (dayNames ! i))
       = Some \<lparr>opens = parseHourFromTime h (cells 1 (i + 1)), closes = gridCloseHour h (cells 2 (i + 1))\<rparr>"
proof -
  have seven: "[0 ..< 7] = [0, 1, 2, 3, 4, 5, 6]"
    by (simp add: upt_rec)
  from assms have "i = 0 \<or> i = 1 \<or> i = 2 \<or> i = 3 \<or> i = 4 \<or> i = 5 \<or> i = 6"
    by arith
  then show ?thesis
    unfolding seven
    by (elim disjE; hypsubst; simp add: parseGridDay_def store_hours_def set_day_def dayNames_def)
qed

text \<open>
  Claim C4. A close time that is the string \<^verbatim>\<open>24:00\<close> or \<^verbatim>\<open>00:00\<close> is parsed to the close
  hour 24 in both layouts: in the traditional layout the row stores it for its day
  label, in the grid layout the weekday of the column gets it.
\<close>

theorem midnight_close_is_24:
  "traditionalCloseHour ''24:00'' = Some 24 \<and> traditionalCloseHour ''00:00'' = Some 24
   \<and> (truthy dayLabel \<and> truthy hoursString \<and> dayLabel \<noteq> JStr ''__proto__''
        \<and> js_split (CHR ''-'') (js_toString h hoursString) = [p0, p1]
        \<and> (js_trim p1 = ''24:00'' \<or> js_trim p1 = ''00:00'')
        \<and> js_parseInt (first_part (CHR '':'') (js_trim p0)) = Some oh
      \<longrightarrow> map_of (dayOpeningHours (parseTraditionalRow h st (dayLabel, hoursString))) dayLabel
            = Some \<lparr>opens = oh, closes = 24\<rparr>)
   \<and> gridCloseHour h (JStr ''24:00'') = 24 \<and> gridCloseHour h (JStr ''00:00'') = 24
   \<and> (\<not> hasTraditionalFormat (openingHoursData ci) \<and> i < 7
        \<and> (openingHoursRange ci 2 (i + 1) = JStr ''24:00'' \<or> openingHoursRange ci 2 (i + 1) = JStr ''00:00'')
      \<longrightarrow> map_option closes (map_of (dayOpeningHours (parseOpeningHours h ci)) (JStr (dayNames ! i))) = Some 24)"
proof -
  have a: "map_of (dayOpeningHours (parseTraditionalRow h st (dayLabel, hoursString))) dayLabel
            = Some \<lparr>opens = oh, closes = 24\<rparr>"
    if "truthy dayLabel" "truthy hoursString" "dayLabel \<noteq> JStr ''__proto__''"
      "js_split (CHR ''-'') (js_toString h hoursString) = [p0, p1]"
      "js_trim p1 = ''24:00'' \<or> js_trim p1 = ''00:00''"
      "js_parseInt (first_part (CHR '':'') (js_trim p0)) = Some oh"
    using that by (simp add: parseTraditionalRow_midnight store_hours_lookup)
  have b: "map_option closes (map_of (dayOpeningHours (parseOpeningHours h ci)) (JStr (dayNames ! i))) = Some 24"
    if "\<not> hasTraditionalFormat (openingHoursData ci)" "i < 7"
      "openingHoursRange ci 2 (i + 1) = JStr ''24:00'' \<or> openingHoursRange ci 2 (i + 1) = JStr ''00:00''"
    using that gridCloseHour_midnight [of h]
    by (auto simp add: parseOpeningHours_def parseGrid_lookup simp del: upt_Suc)
  from a b traditionalCloseHour_midnight gridCloseHour_midnight [of h] show ?thesis
    by blast
qed

theorem midnight_close_is_24_witness:
  "js_split (CHR ''-'') (js_toString plainHost (JStr ''08:00-24:00'')) = [''08:00'', ''24:00'']
   \<and> js_parseInt (first_part (CHR '':'') (js_trim ''08:00'')) = Some 8
   \<and> map_of (dayOpeningHours (parseTraditionalRow plainHost initialHours (JStr ''Sunday'', JStr ''08:00-24:00'')))
        (JStr ''Sunday'') = Some \<lparr>opens = 8, closes = 24\<rparr>
   \<and> \<not> hasTraditionalFormat (openingHoursData midnightClub)
   \<and> openingHoursRange midnightClub 2 (0 + 1) = JStr ''24:00''
   \<and> openingHoursRange midnightClub 2 (1 + 1) = JStr ''00:00''
   \<and> map_option closes (map_of (dayOpeningHours (parseOpeningHours plainHost midnightClub)) (JStr (dayNames ! 0))) = Some 24
   \<and> map_option closes (map_of (dayOpeningHours (parseOpeningHours plainHost midnightClub)) (JStr (dayNames ! 1))) = Some 24"
proof -
  have split: "js_split (CHR ''-'') (js_toString plainHost (JStr ''08:00-24:00'')) = [''08:00'', ''24:00'']"
    by simp
  have trim: "js_trim ''24:00'' = ''24:00''" "js_trim ''08:00'' = ''08:00''"
    by (simp_all add: js_trim_def is_space_def)
  have openHour: "js_parseInt (first_part (CHR '':'') (js_trim ''08:00'')) = Some 8"
    by (simp add: first_part_def time_eval)
  have grid: "\<not> hasTraditionalFormat (openingHoursData midnightClub)"
    "openingHoursRange midnightClub 2 (0 + 1) = JStr ''24:00''"
    "openingHoursRange midnightClub 2 (1 + 1) = JStr ''00:00''"
    by (simp_all add: midnightClub_def midnightCells_def hasTraditionalFormat_def)
  note t = midnight_close_is_24 [where h = plainHost and ci = midnightClub and dayLabel = "JStr ''Sunday''"
      and hoursString = "JStr ''08:00-24:00''" and ?p0.0 = "''08:00''" and ?p1.0 = "''24:00''" and oh = 8
      and st = initialHours]
  from t [of 0] split trim openHour
  have a: "map_of (dayOpeningHours (parseTraditionalRow plainHost initialHours (JStr ''Sunday'', JStr ''08:00-24:00'')))
        (JStr ''Sunday'') = Some \<lparr>opens = 8, closes = 24\<rparr>"
    by simp
  from t [of 0] grid
  have b0: "map_option closes (map_of (dayOpeningHours (parseOpeningHours plainHost midnightClub)) (JStr (dayNames ! 0))) = Some 24"
    by simp
  from t [of 1] grid
  have b1: "map_option closes (map_of (dayOpeningHours (parseOpeningHours plainHost midnightClub)) (JStr (dayNames ! 1))) = Some 24"
    by simp
  from split openHour a grid b0 b1 show ?thesis by simp
qed

section \<open>The loops of the grid builder\<close>

lemma foldl_map_upd:
  "foldl (\<lambda>c d. c(d \<mapsto> f d)) c0 ds k = (if k \<in> set ds then Some (f k) else c0 k)"
  by (induction ds arbitrary: c0) auto

lemma buildDayOfWeekCache_lookup:
  "buildDayOfWeekCache monthNum year day =
     (if 1 \<le> day \<and> day \<le> monthDays monthNum year
      then Some \<lparr>dayName = dayNames ! nat (day_getDay (js_Date year (monthNum - 1) (int day))),
                 dayIndex = day_getDay (js_Date year (monthNum - 1) (int day))\<rparr>
      else None)"
  unfolding buildDayOfWeekCache_def Let_def
  by (subst foldl_map_upd) auto

lemma fillDays_append:
  "fillDays cellf (xs @ ys) row =
     (case fillDays cellf xs row of Inl e \<Rightarrow> Inl e | Inr row' \<Rightarrow> fillDays cellf ys row')"
  by (induction xs arbitrary: row) (auto split: sum.splits)

lemma fillDays_upt:
  assumes "\<forall>d. 1 \<le> d \<and> d \<le> n \<longrightarrow> cellf d = Inr (v d)"
  shows "k \<le> n \<Longrightarrow> n = length row \<Longrightarrow> fillDays cellf [1 ..< k + 1] row = Inr (map v [1 ..< k + 1] @ drop k row)"
proof (induction k)
  case 0
  then show ?case by simp
next
  case (Suc k)
  have step: "cellf (Suc k) = Inr (v (Suc k))" using assms Suc.prems by auto
  have "fillDays cellf [1 ..< Suc k + 1] row = fillDays cellf ([1 ..< k + 1] @ [Suc k]) row"
    by simp
  also have "\<dots> = fillDays cellf [Suc k] (map v [1 ..< k + 1] @ drop k row)"
    using Suc by (simp add: fillDays_append del: upt_Suc)
  also have "\<dots> = Inr ((map v [1 ..< k + 1] @ drop k row)[k := v (Suc k)])"
    using step by simp
  also have "(map v [1 ..< k + 1] @ drop k row)[k := v (Suc k)] = map v [1 ..< k + 1] @ (drop k row)[0 := v (Suc k)]"
    by (simp add: list_update_append)
  also have "(drop k row)[0 := v (Suc k)] = v (Suc k) # drop (Suc k) row"
    using Suc.prems by (simp add: Cons_nth_drop_Suc [symmetric])
  finally show ?case by simp
qed

lemma fillDays_all:
  assumes "\<forall>d. 1 \<le> d \<and> d \<le> length row \<longrightarrow> cellf d = Inr (v d)"
  shows "fillDays cellf [1 ..< length row + 1] row = Inr (map v [1 ..< length row + 1])"
  using fillDays_upt [OF assms, of "length row" row] by simp

lemma fillRows_append:
  "fillRows cellf rows days (xs @ ys) grid =
     (case fillRows cellf rows days xs grid of Inl e \<Rightarrow> Inl e | Inr grid' \<Rightarrow> fillRows cellf rows days ys grid')"
  by (induction xs arbitrary: grid) (auto split: sum.splits)

lemma fillRows_upt:
  assumes "\<forall>hour d. 1 \<le> d \<and> d \<le> n \<longrightarrow> cellf hour d = Inr (v hour d)"
    and "\<forall>row \<in> set grid. length row = n"
  shows "k \<le> length grid \<Longrightarrow>
     fillRows cellf rows [1 ..< n + 1] [0 ..< k] grid
       = Inr (map (\<lambda>hi. map (v (rows ! hi)) [1 ..< n + 1]) [0 ..< k] @ drop k grid)"
proof (induction k)
  case 0
  then show ?case by simp
next
  case (Suc k)
  have len: "length (grid ! k) = n" using assms(2) Suc.prems by auto
  have nth: "(map (\<lambda>hi. map (v (rows ! hi)) [1 ..< n + 1]) [0 ..< k] @ drop k grid) ! k = grid ! k"
    using Suc.prems by (simp add: nth_append)
  have row: "fillDays (cellf (rows ! k)) [1 ..< n + 1] (grid ! k) = Inr (map (v (rows ! k)) [1 ..< n + 1])"
    using fillDays_all [of "grid ! k" "cellf (rows ! k)" "v (rows ! k)"] assms(1) len by simp
  have "fillRows cellf rows [1 ..< n + 1] [0 ..< Suc k] grid
      = fillRows cellf rows [1 ..< n + 1] [k] (map (\<lambda>hi. map (v (rows ! hi)) [1 ..< n + 1]) [0 ..< k] @ drop k grid)"
    using Suc by (simp add: fillRows_append)
  also have "\<dots> = Inr ((map (\<lambda>hi. map (v (rows ! hi)) [1 ..< n + 1]) [0 ..< k] @ drop k grid)[k := map (v (rows ! k)) [1 ..< n + 1]])"
    using row nth by simp
  also have "(map (\<lambda>hi. map (v (rows ! hi)) [1 ..< n + 1]) [0 ..< k] @ drop k grid)[k := map (v (rows ! k)) [1 ..< n + 1]]
      = map (\<lambda>hi. map (v (rows ! hi)) [1 ..< n + 1]) [0 ..< k] @ (drop k grid)[0 := map (v (rows ! k)) [1 ..< n + 1]]"
    by (simp add: list_update_append)
  also have "(drop k grid)[0 := map (v (rows ! k)) [1 ..< n + 1]] = map (v (rows ! k)) [1 ..< n + 1] # drop (Suc k) grid"
    using Suc.prems by (simp add: Cons_nth_drop_Suc [symmetric])
  finally show ?case by simp
qed

lemma availableCell_cached:
  assumes "1 \<le> day" "day \<le> monthDays monthNum year"
  shows "availableCell doh maxH (buildDayOfWeekCache monthNum year) hour day =
     Inr (case map_of doh (JStr (dayNames ! nat (day_getDay (js_Date year (monthNum - 1) (int day))))) of
            Some openingInfo \<Rightarrow> if opens openingInfo \<le> hour \<and> hour < closes openingInfo then maxH else 0
          | None \<Rightarrow> 0)"
  using assms by (simp add: availableCell_def buildDayOfWeekCache_lookup split: option.splits)

lemma fillRows_availableCell:
  "fillRows (availableCell doh maxH (buildDayOfWeekCache monthNum year)) rows
      [1 ..< monthDays monthNum year + 1] [0 ..< length rows]
      (replicate (length rows) (replicate (monthDays monthNum year) 0))
   = Inr (map (\<lambda>hi. map (\<lambda>day.
            case map_of doh (JStr (dayNames ! nat (day_getDay (js_Date year (monthNum - 1) (int day))))) of
              Some openingInfo \<Rightarrow> if opens openingInfo \<le> rows ! hi \<and> rows ! hi < closes openingInfo then maxH else 0
            | None \<Rightarrow> 0) [1 ..< monthDays monthNum year + 1]) [0 ..< length rows])"
proof -
  let ?n = "monthDays monthNum year"
  let ?v = "\<lambda>hour day. case map_of doh (JStr (dayNames ! nat (day_getDay (js_Date year (monthNum - 1) (int day))))) of
              Some openingInfo \<Rightarrow> if opens openingInfo \<le> hour \<and> hour < closes openingInfo then maxH else 0
            | None \<Rightarrow> 0"
  have cells: "\<forall>hour d. 1 \<le> d \<and> d \<le> ?n \<longrightarrow>
      availableCell doh maxH (buildDayOfWeekCache monthNum year) hour d = Inr (?v hour d)"
    by (simp add: availableCell_cached)
  have lens: "\<forall>row \<in> set (replicate (length rows) (replicate ?n (0::rat))). length row = ?n"
    by simp
  show ?thesis
    using fillRows_upt [OF cells lens, of "length rows" rows] by simp
qed

lemma calculateAvailableHours_result:
  "calculateAvailableHours h (Some ci) monthNum year =
     (let st = applyDefaults (parseOpeningHours h ci);
          bounds = hourBounds (earliestHour st) (latestHour st);
          rows = [fst bounds .. snd bounds]
      in Inr \<lparr>dayOpeningHours = dayOpeningHours st,
          earliestHour = fst bounds,
          latestHour = latestHour st,
          availableGrid =
            map (\<lambda>hi. map (\<lambda>day.
                   case map_of (dayOpeningHours st)
                          (JStr (dayNames ! nat (day_getDay (js_Date year (monthNum - 1) (int day))))) of
                     Some openingInfo \<Rightarrow>
                       if opens openingInfo \<le> rows ! hi \<and> rows ! hi < closes openingInfo
                       then maxHoursPerHour ci else 0
                   | None \<Rightarrow> 0) [1 ..< monthDays monthNum year + 1]) [0 ..< length rows],
          timeRows = rows, daysInMonth = monthDays monthNum year,
          dayOfWeekCache = buildDayOfWeekCache monthNum year\<rparr>)"
  unfolding calculateAvailableHours_def Let_def split_beta option.case fillRows_availableCell sum.case
  by (rule refl)

lemma calculateAvailableHours_returns:
  "\<exists>r. calculateAvailableHours h (Some ci) monthNum year = Inr r"
  by (simp add: calculateAvailableHours_result Let_def)

text \<open>
  Claim C5. \<^verbatim>\<open>calculateAvailableHours\<close> returns, and for every hour row and every day of
  the month the cell of the availability grid is the number of courts when the
  schedule has an entry for the weekday of that day with \<open>opens \<le> hour < closes\<close>, and 0
  otherwise; a weekday without an entry gives 0 in every row.
\<close>

theorem availability_cell_value:
  "\<exists>r. calculateAvailableHours h (Some ci) monthNum year = Inr r \<and>
     (\<forall>hourIndex day. hourIndex < length (timeRows r) \<and> 1 \<le> day \<and> day \<le> daysInMonth r \<longrightarrow>
        (\<exists>dayInfo. dayOfWeekCache r day = Some dayInfo \<and>
           availableGrid r ! hourIndex ! (day - 1) =
             (case map_of (dayOpeningHours r) (JStr (dayName dayInfo)) of
                Some openingInfo \<Rightarrow>
                  if opens openingInfo \<le> timeRows r ! hourIndex \<and> timeRows r ! hourIndex < closes openingInfo
                  then maxHoursPerHour ci else 0
              | None \<Rightarrow> 0)))"
proof -
  have nth_days: "map f [1 ..< n + 1] ! (day - 1) = f day" if "1 \<le> day" "day \<le> n" for f :: "nat \<Rightarrow> rat" and n day
  proof -
    have "day - 1 < length [1 ..< n + 1]" using that by simp
    then have "map f [1 ..< n + 1] ! (day - 1) = f ([1 ..< n + 1] ! (day - 1))" by (rule nth_map)
    also have "[1 ..< n + 1] ! (day - 1) = day" using that by (simp add: nth_upt del: upt_Suc)
    finally show ?thesis .
  qed
  have nth_rows: "map g [0 ..< length rows] ! hi = g hi" if "hi < length rows" for g :: "nat \<Rightarrow> rat list" and rows :: "int list" and hi
    using that by simp
  let ?st = "applyDefaults (parseOpeningHours h ci)"
  let ?rows = "[fst (hourBounds (earliestHour ?st) (latestHour ?st)) .. snd (hourBounds (earliestHour ?st) (latestHour ?st))]"
  let ?n = "monthDays monthNum year"
  let ?cell = "\<lambda>hour day. case map_of (dayOpeningHours ?st)
                          (JStr (dayNames ! nat (day_getDay (js_Date year (monthNum - 1) (int day))))) of
                     Some openingInfo \<Rightarrow>
                       if opens openingInfo \<le> hour \<and> hour < closes openingInfo
                       then maxHoursPerHour ci else 0
                   | None \<Rightarrow> 0"
  let ?grid = "map (\<lambda>hi. map (?cell (?rows ! hi)) [1 ..< ?n + 1]) [0 ..< length ?rows]"
  let ?r = "\<lparr>dayOpeningHours = dayOpeningHours ?st,
          earliestHour = fst (hourBounds (earliestHour ?st) (latestHour ?st)),
          latestHour = latestHour ?st, availableGrid = ?grid,
          timeRows = ?rows, daysInMonth = ?n,
          dayOfWeekCache = buildDayOfWeekCache monthNum year\<rparr>"
  have res: "calculateAvailableHours h (Some ci) monthNum year = Inr ?r"
    unfolding calculateAvailableHours_result Let_def by (rule refl)
  have cell: "?grid ! hourIndex ! (day - 1) = ?cell (?rows ! hourIndex) day"
    if "hourIndex < length ?rows" "1 \<le> day" "day \<le> ?n" for hourIndex day
  proof -
    have "?grid ! hourIndex = map (?cell (?rows ! hourIndex)) [1 ..< ?n + 1]"
      using that(1) by (rule nth_rows)
    then show ?thesis using that(2,3) by (simp only: nth_days)
  qed
  have sel: "timeRows ?r = ?rows" "daysInMonth ?r = ?n" "availableGrid ?r = ?grid"
      "dayOpeningHours ?r = dayOpeningHours ?st" "dayOfWeekCache ?r = buildDayOfWeekCache monthNum year"
    by (simp_all del: upt_Suc length_upto nth_map)
  have "\<exists>dayInfo. dayOfWeekCache ?r day = Some dayInfo \<and>
           availableGrid ?r ! hourIndex ! (day - 1) =
             (case map_of (dayOpeningHours ?r) (JStr (dayName dayInfo)) of
                Some openingInfo \<Rightarrow>
                  if opens openingInfo \<le> timeRows ?r ! hourIndex \<and> timeRows ?r ! hourIndex < closes openingInfo
                  then maxHoursPerHour ci else 0
              | None \<Rightarrow> 0)"
    if a: "hourIndex < length (timeRows ?r)" "1 \<le> day" "day \<le> daysInMonth ?r" for hourIndex day
  proof -
    let ?name = "dayNames ! nat (day_getDay (js_Date year (monthNum - 1) (int day)))"
    let ?info = "\<lparr>dayName = ?name, dayIndex = day_getDay (js_Date year (monthNum - 1) (int day))\<rparr>"
    from a(1) have b1: "hourIndex < length ?rows" unfolding sel .
    from a(3) have b2: "day \<le> ?n" unfolding sel .
    note b = b1 b2
    have name: "dayName ?info = ?name" by simp
    have "buildDayOfWeekCache monthNum year day = Some ?info"
      using a(2) b(2) by (simp add: buildDayOfWeekCache_lookup)
    moreover have "?grid ! hourIndex ! (day - 1) = ?cell (?rows ! hourIndex) day"
      using cell [OF b(1) a(2) b(2)] .
    ultimately show ?thesis unfolding sel
      by (intro exI [of _ ?info] conjI) (simp_all only: name)
  qed
  with res show ?thesis by blast
qed

theorem availability_cell_value_witness:
  "\<exists>r. calculateAvailableHours plainHost (Some weekdayClub) 2 2025 = Inr r
       \<and> 0 < length (timeRows r) \<and> 3 \<le> daysInMonth r \<and> 1 \<le> daysInMonth r
       \<and> timeRows r ! 0 = 9
       \<and> map_option dayName (dayOfWeekCache r 3) = Some ''Monday''
       \<and> availableGrid r ! 0 ! (3 - 1) = maxHoursPerHour weekdayClub
       \<and> map_option dayName (dayOfWeekCache r 1) = Some ''Saturday''
       \<and> map_of (dayOpeningHours r) (JStr ''Saturday'') = None
       \<and> availableGrid r ! 0 ! (1 - 1) = 0"
proof -
  have run: "case calculateAvailableHours plainHost (Some weekdayClub) 2 2025 of
               Inr r \<Rightarrow> timeRows r = [9, 10, 11, 12, 13, 14, 15, 16] \<and> daysInMonth r = 28
                 \<and> map_option dayName (dayOfWeekCache r 3) = Some ''Monday''
                 \<and> map_of (dayOpeningHours r) (JStr ''Monday'') = Some \<lparr>opens = 9, closes = 17\<rparr>
                 \<and> map_option dayName (dayOfWeekCache r 1) = Some ''Saturday''
                 \<and> map_of (dayOpeningHours r) (JStr ''Saturday'') = None
             | Inl e \<Rightarrow> False"
    by code_simp
  from availability_cell_value [of plainHost weekdayClub 2 2025]
  obtain r where r: "calculateAvailableHours plainHost (Some weekdayClub) 2 2025 = Inr r"
    and cells: "\<And>hourIndex day. hourIndex < length (timeRows r) \<Longrightarrow> 1 \<le> day \<Longrightarrow> day \<le> daysInMonth r \<Longrightarrow>
        (\<exists>dayInfo. dayOfWeekCache r day = Some dayInfo \<and>
           availableGrid r ! hourIndex ! (day - 1) =
             (case map_of (dayOpeningHours r) (JStr (dayName dayInfo)) of
                Some openingInfo \<Rightarrow>
                  if opens openingInfo \<le> timeRows r ! hourIndex \<and> timeRows r ! hourIndex < closes openingInfo
                  then maxHoursPerHour weekdayClub else 0
              | None \<Rightarrow> 0))"
    by blast
  from run r have facts: "timeRows r = [9, 10, 11, 12, 13, 14, 15, 16]" "daysInMonth r = 28"
      "map_option dayName (dayOfWeekCache r 3) = Some ''Monday''"
      "map_of (dayOpeningHours r) (JStr ''Monday'') = Some \<lparr>opens = 9, closes = 17\<rparr>"
      "map_option dayName (dayOfWeekCache r 1) = Some ''Saturday''"
      "map_of (dayOpeningHours r) (JStr ''Saturday'') = None"
    by simp_all
  from cells [of 0 3] facts have monday: "availableGrid r ! 0 ! (3 - 1) = maxHoursPerHour weekdayClub"
    by auto
  from cells [of 0 1] facts have saturday: "availableGrid r ! 0 ! (1 - 1) = 0"
    by auto
  from r facts monday saturday show ?thesis by simp
qed

section \<open>Default schedule\<close>

lemma default_entries:
  "name \<in> set dayNames \<Longrightarrow>
   map_of (foldl (\<lambda>d name. set_day d (JStr name) \<lparr>opens = 8, closes = 23\<rparr>) d0 dayNames) (JStr name)
     = Some \<lparr>opens = 8, closes = 23\<rparr>"
  by (auto simp add: dayNames_def set_day_def)

lemma default_bounds: "hourBounds 8 23 = (8, 22)"
  by (simp add: hourBounds_def)

text \<open>
  A configuration with no cell filled in does not reach the defaults: the grid layout
  reads each empty cell as hour 0 and promotes the close hour 0 to 24.
\<close>

lemma empty_configuration_is_open_all_day:
  "\<not> needsDefaults (parseOpeningHours plainHost emptyClub)
   \<and> map_of (dayOpeningHours (parseOpeningHours plainHost emptyClub)) (JStr ''Monday'') = Some \<lparr>opens = 0, closes = 24\<rparr>
   \<and> earliestHour (parseOpeningHours plainHost emptyClub) = 0
   \<and> latestHour (parseOpeningHours plainHost emptyClub) = 24"
  by (simp add: needsDefaults_def parseOpeningHours_def emptyClub_def hasTraditionalFormat_def
      parseGridDay_def store_hours_def set_day_def initialHours_def dayNames_def gridCloseHour_def
      parseHourFromTime_def upt_rec list_ex_iff)

text \<open>
  Claim C1, as amended. When after parsing the earliest hour is still 24, the latest
  hour is still 0 or no entry was stored, the result has open 8 and close 23 for each
  of the seven day names, earliest hour 8 and latest hour 23, and the hour rows are the
  hours 8 to 22: the last row is the hour before the closing hour.
\<close>

theorem default_schedule_fallback:
  assumes "needsDefaults (parseOpeningHours h ci)"
  shows "\<exists>r. calculateAvailableHours h (Some ci) monthNum year = Inr r
     \<and> (\<forall>name \<in> set dayNames. map_of (dayOpeningHours r) (JStr name) = Some \<lparr>opens = 8, closes = 23\<rparr>)
     \<and> earliestHour r = 8 \<and> latestHour r = 23
     \<and> timeRows r = [8, 9, 10, 11, 12, 13, 14, 15, 16, 17, 18, 19, 20, 21, 22]"
proof -
  let ?st = "applyDefaults (parseOpeningHours h ci)"
  from assms have st: "dayOpeningHours ?st =
        foldl (\<lambda>d name. set_day d (JStr name) \<lparr>opens = 8, closes = 23\<rparr>)
          (dayOpeningHours (parseOpeningHours h ci)) dayNames"
      "earliestHour ?st = 8" "latestHour ?st = 23"
    by (simp_all add: applyDefaults_def)
  show ?thesis
    unfolding calculateAvailableHours_result Let_def st
    by (intro exI conjI, rule refl) (simp_all add: default_entries default_bounds del: upt_Suc)
qed

theorem default_schedule_fallback_witness:
  "needsDefaults (parseOpeningHours plainHost unparsedClub)
   \<and> (\<exists>r. calculateAvailableHours plainHost (Some unparsedClub) 2 2025 = Inr r
        \<and> map_of (dayOpeningHours r) (JStr ''Sunday'') = Some \<lparr>opens = 8, closes = 23\<rparr>
        \<and> map_of (dayOpeningHours r) (JStr ''Saturday'') = Some \<lparr>opens = 8, closes = 23\<rparr>
        \<and> earliestHour r = 8 \<and> latestHour r = 23
        \<and> timeRows r = [8, 9, 10, 11, 12, 13, 14, 15, 16, 17, 18, 19, 20, 21, 22])"
proof -
  have pre: "needsDefaults (parseOpeningHours plainHost unparsedClub)"
    by (simp add: needsDefaults_def parseOpeningHours_def unparsedClub_def hasTraditionalFormat_def
        parseTraditionalRow_def initialHours_def)
  have names: "''Sunday'' \<in> set dayNames" "''Saturday'' \<in> set dayNames"
    by (simp_all add: dayNames_def)
  from default_schedule_fallback [OF pre, of 2 2025] names pre show ?thesis
    by blast
qed

text \<open>
  The claim as stated, with hour rows 8 to 23, fails for a schedule whose only row
  cannot be parsed: the defaults apply and the rows end at 22.
\<close>

theorem default_rows_end_at_22:
  "needsDefaults (parseOpeningHours plainHost unparsedClub)
   \<and> resultRows (calculateAvailableHours plainHost (Some unparsedClub) 2 2025)
       = [8, 9, 10, 11, 12, 13, 14, 15, 16, 17, 18, 19, 20, 21, 22]
   \<and> resultRows (calculateAvailableHours plainHost (Some unparsedClub) 2 2025)
       \<noteq> [8, 9, 10, 11, 12, 13, 14, 15, 16, 17, 18, 19, 20, 21, 22, 23]"
  by code_simp

section \<open>Reconciliation\<close>

text \<open>
  The comparison with the double 0.01, \<open>5764607523034235 / 2 ^ 59\<close>, in terms of the exact
  difference \<open>d\<close>: the rounded difference is at most the double 0.01 exactly when \<open>\<bar>d\<bar>\<close>
  is below the midpoint between the double 0.01 and the next double, which rounds up.
\<close>

lemma half_even_below_half:
  assumes "of_int n \<le> x" "x < of_int n + 1 / 2"
  shows "half_even x = n"
proof -
  have "\<lfloor>x\<rfloor> = n" using assms by (intro floor_unique) simp_all
  then show ?thesis using assms by (simp add: half_even_def Let_def)
qed

lemma tolerance_doubles:
  "fl (1 / 100) = 5764607523034235 / 2 ^ 59"
  "fl (5764607523034235 / 2 ^ 59) = 5764607523034235 / 2 ^ 59"
  "fl (11529215046068471 / 2 ^ 60) = 5764607523034236 / 2 ^ 59"
  by code_simp+

lemma fl_within_tolerance:
  "\<bar>fl d\<bar> \<le> fl (1 / 100) \<longleftrightarrow> \<bar>d\<bar> < 11529215046068471 / 2 ^ 60"
proof -
  let ?c = "5764607523034235 / 2 ^ 59 :: rat"
  let ?m = "11529215046068471 / 2 ^ 60 :: rat"
  have below: "fl \<bar>d\<bar> \<le> ?c" if "\<bar>d\<bar> \<le> ?c"
    using fl_mono [OF that] by (simp only: tolerance_doubles)
  have between: "fl \<bar>d\<bar> = ?c" if lo: "?c < \<bar>d\<bar>" and hi: "\<bar>d\<bar> < ?m"
  proof -
    have p7: "(2::rat) powi (- 7) = 1 / 128" and p6: "(2::rat) powi (- 7 + 1) = 1 / 64"
      and p59: "(2::rat) powi (- 59) = 1 / 2 ^ 59"
      by (simp_all add: power_int_minus field_simps)
    have "binade \<bar>d\<bar> = - 7"
      using lo hi by (intro binade_unique) (simp_all only: p7 p6, simp_all)
    then have u: "(2::rat) powi (max (binade \<bar>d\<bar>) (- 1022) - 52) = 1 / 2 ^ 59"
      using p59 by simp
    have h: "half_even (\<bar>d\<bar> / (1 / 2 ^ 59)) = 5764607523034235"
      using lo hi by (intro half_even_below_half) (simp_all add: field_simps)
    have nz: "\<bar>d\<bar> \<noteq> 0" using lo by auto
    show ?thesis unfolding fl_nonzero [OF nz] u h by simp
  qed
  have above: "?c < fl \<bar>d\<bar>" if "?m \<le> \<bar>d\<bar>"
    using fl_mono [OF that] by (simp only: tolerance_doubles) simp
  show ?thesis
  proof
    assume "\<bar>fl d\<bar> \<le> fl (1 / 100)"
    then have "\<not> ?c < fl \<bar>d\<bar>" by (simp only: fl_abs tolerance_doubles)
    with above show "\<bar>d\<bar> < ?m" by force
  next
    assume "\<bar>d\<bar> < ?m"
    then have "fl \<bar>d\<bar> \<le> ?c" using below between by (cases "\<bar>d\<bar> \<le> ?c") auto
    then show "\<bar>fl d\<bar> \<le> fl (1 / 100)" by (simp only: fl_abs tolerance_doubles)
  qed
qed

text \<open>
  Claim C3. The status written to E3 is \<^verbatim>\<open>OK\<close> exactly when the difference of the two
  totals, as the script computes it in doubles, is at most the double 0.01 in absolute
  value, and \<^verbatim>\<open>Please Check\<close> (the mismatch status) otherwise: 120 against 120.0049 is
  \<^verbatim>\<open>OK\<close>, 120 against 121 is a mismatch. On the boundary the doubles decide: 0.01
  against 0 and 0.02 against 0.01 are \<^verbatim>\<open>OK\<close>, 120.01 against 120 is a mismatch.
  In terms of the exact difference of the two doubles, the status is \<^verbatim>\<open>OK\<close> exactly
  when that difference is, in absolute value, below \<open>11529215046068471 / 2 ^ 60\<close>, the
  double 0.01 plus half a unit in its last place.
  Whatever the status, a run with a four-digit month, a \<^verbatim>\<open>ClubInfo\<close> tab and a source
  tab produces the report, with the status in it.
\<close>

theorem reconciliation_status_advisory:
  "(validationStatus a b = ''OK'' \<longleftrightarrow> \<bar>fl (fl a - fl b)\<bar> \<le> fl (1 / 100))
   \<and> (validationStatus a b = ''Please Check'' \<longleftrightarrow> \<bar>fl (fl a - fl b)\<bar> > fl (1 / 100))
   \<and> (validationStatus a b = ''OK'' \<longleftrightarrow> \<bar>fl a - fl b\<bar> < 11529215046068471 / 2 ^ 60)
   \<and> fl (1 / 100) = 5764607523034235 / 2 ^ 59
   \<and> validationStatus 120 (1200049 / 10000) = ''OK''
   \<and> validationStatus 120 121 = ''Please Check''
   \<and> validationStatus (1 / 100) 0 = ''OK''
   \<and> validationStatus (2 / 100) (1 / 100) = ''OK''
   \<and> validationStatus (12001 / 100) 120 = ''Please Check''
   \<and> (fourDigits monthDigits \<and> clubInfoTab ss = Some ci \<and> tabs ss (monthDigits @ ''e_2'') = Some sourceSheet \<longrightarrow>
        (\<exists>r. createHoursDaysTable h ss True monthDigits = Report r
           \<and> e2Total r = sumColumnH sourceSheet
           \<and> eTotal r = (case tabs ss (monthDigits @ ''e'') of Some eSheet \<Rightarrow> sumColumnH eSheet | None \<Rightarrow> 0)
           \<and> validation r = validationStatus (eTotal r) (e2Total r)))"
proof -
  have status: "(validationStatus a b = ''OK'' \<longleftrightarrow> \<bar>fl (fl a - fl b)\<bar> \<le> fl (1 / 100))
      \<and> (validationStatus a b = ''Please Check'' \<longleftrightarrow> \<bar>fl (fl a - fl b)\<bar> > fl (1 / 100))"
    by (simp add: validationStatus_def)
  then have exact: "validationStatus a b = ''OK'' \<longleftrightarrow> \<bar>fl a - fl b\<bar> < 11529215046068471 / 2 ^ 60"
    by (simp only: fl_within_tolerance)
  have examples: "fl (1 / 100) = 5764607523034235 / 2 ^ 59
      \<and> validationStatus 120 (1200049 / 10000) = ''OK''
      \<and> validationStatus 120 121 = ''Please Check''
      \<and> validationStatus (1 / 100) 0 = ''OK''
      \<and> validationStatus (2 / 100) (1 / 100) = ''OK''
      \<and> validationStatus (12001 / 100) 120 = ''Please Check''"
    by code_simp
  have proceeds: "\<exists>r. createHoursDaysTable h ss True monthDigits = Report r
           \<and> e2Total r = sumColumnH sourceSheet
           \<and> eTotal r = (case tabs ss (monthDigits @ ''e'') of Some eSheet \<Rightarrow> sumColumnH eSheet | None \<Rightarrow> 0)
           \<and> validation r = validationStatus (eTotal r) (e2Total r)"
    if "fourDigits monthDigits" "clubInfoTab ss = Some ci" "tabs ss (monthDigits @ ''e_2'') = Some sourceSheet"
  proof -
    obtain avail where "calculateAvailableHours h (Some ci) (digits_value 10 (take 2 monthDigits))
        (digits_value 10 (''20'' @ drop 2 monthDigits)) = Inr avail"
      using calculateAvailableHours_returns by blast
    with that show ?thesis
      by (simp add: createHoursDaysTable_def Let_def)
  qed
  from status exact examples proceeds show ?thesis by blast
qed

theorem reconciliation_status_advisory_witness:
  "fourDigits ''0225'' \<and> clubInfoTab febBook = Some weekdayClub
   \<and> tabs febBook (''0225'' @ ''e_2'') \<noteq> None
   \<and> (\<exists>r. createHoursDaysTable plainHost febBook True ''0225'' = Report r
         \<and> eTotal r = 8 \<and> e2Total r = 7 \<and> validation r = ''Please Check'')"
proof -
  have pre: "fourDigits ''0225''" "clubInfoTab febBook = Some weekdayClub"
    "tabs febBook (''0225'' @ ''e_2'') = Some [headerRow,
                   bookingRow (JDate (JsDate 2025 1 3 0)) (JNum (3 / 8)) (JNum 5),
                   bookingRow (JDate (JsDate 2025 1 4 0)) (JStr ''10:00 am'') (JNum 2)]"
    by (simp_all add: fourDigits_def is_digit_def febBook_def)
  have sums: "sumColumnH [headerRow,
                   bookingRow (JDate (JsDate 2025 1 3 0)) (JNum (3 / 8)) (JNum 5),
                   bookingRow (JDate (JsDate 2025 1 4 0)) (JStr ''10:00 am'') (JNum 2)] = 7"
    "(case tabs febBook (''0225'' @ ''e'') of Some eSheet \<Rightarrow> sumColumnH eSheet | None \<Rightarrow> 0) = 8"
    by code_simp+
  have st: "validationStatus 8 7 = ''Please Check''"
    by code_simp
  from reconciliation_status_advisory [where a = 8 and b = 7 and monthDigits = "''0225''" and ss = febBook
      and ci = weekdayClub and h = plainHost and sourceSheet = "[headerRow,
                   bookingRow (JDate (JsDate 2025 1 3 0)) (JNum (3 / 8)) (JNum 5),
                   bookingRow (JDate (JsDate 2025 1 4 0)) (JStr ''10:00 am'') (JNum 2)]"] pre
  obtain r where "createHoursDaysTable plainHost febBook True ''0225'' = Report r"
    "e2Total r = sumColumnH [headerRow,
                   bookingRow (JDate (JsDate 2025 1 3 0)) (JNum (3 / 8)) (JNum 5),
                   bookingRow (JDate (JsDate 2025 1 4 0)) (JStr ''10:00 am'') (JNum 2)]"
    "eTotal r = (case tabs febBook (''0225'' @ ''e'') of Some eSheet \<Rightarrow> sumColumnH eSheet | None \<Rightarrow> 0)"
    "validation r = validationStatus (eTotal r) (e2Total r)"
    by blast
  with sums st pre show ?thesis by auto
qed

section \<open>Rows the aggregator leaves out\<close>

lemma aggregate_skip_row:
  assumes "\<And>st. processRow h rows nDays monthNum year st rowData = st"
  shows "aggregateBookings h rows nDays monthNum year (header # before @ rowData # after)
       = aggregateBookings h rows nDays monthNum year (header # before @ after)"
  using assms by (simp add: aggregateBookings_def lastRow_def lastCol_def Let_def)

lemma processRow_falsy:
  assumes "\<not> truthy (cellAt rowData 3) \<or> \<not> truthy (cellAt rowData 5) \<or> \<not> truthy (cellAt rowData 7)"
  shows "processRow h rows nDays monthNum year st rowData = st"
  using assms by (auto simp add: processRow_def Let_def)

lemma processRow_other_month:
  assumes "newDate h (cellAt rowData 3) = Some d"
    and "getMonth d + 1 \<noteq> monthNum \<or> getFullYear d \<noteq> year"
  shows "processRow h rows nDays monthNum year st rowData = st"
  using assms by (auto simp add: processRow_def Let_def)

text \<open>
  Claim C10. A booking row whose date, start time or hours cell is falsy leaves the
  booking grid and the count of processed rows as they were, so the aggregation is the
  same with and without the row. The hours value 0 and the start time 0 (midnight as a
  fraction of the day) are such cells.
\<close>

theorem falsy_row_contributes_nothing:
  assumes "\<not> truthy (cellAt rowData 3) \<or> \<not> truthy (cellAt rowData 5) \<or> \<not> truthy (cellAt rowData 7)"
  shows "processRow h rows nDays monthNum year st rowData = st
       \<and> aggregateBookings h rows nDays monthNum year (header # before @ rowData # after)
         = aggregateBookings h rows nDays monthNum year (header # before @ after)"
  using assms aggregate_skip_row [of h rows nDays monthNum year rowData header before after]
    processRow_falsy [of rowData h rows nDays monthNum year] by blast

theorem falsy_row_contributes_nothing_witness:
  "\<not> truthy (cellAt (bookingRow (JDate (JsDate 2025 1 3 0)) (JNum (3 / 8)) (JNum 0)) 7)
   \<and> processRow plainHost [9, 10] 28 2 2025 \<lparr>dataGrid = [[Num 1], [Num 0]], processedCount = 1\<rparr>
        (bookingRow (JDate (JsDate 2025 1 3 0)) (JNum (3 / 8)) (JNum 0))
       = \<lparr>dataGrid = [[Num 1], [Num 0]], processedCount = 1\<rparr>
   \<and> \<not> truthy (cellAt (bookingRow (JDate (JsDate 2025 1 3 0)) (JNum 0) (JNum 1)) 5)
   \<and> aggregateBookings plainHost [0, 1] 28 2 2025
         [headerRow, bookingRow (JDate (JsDate 2025 1 3 0)) (JNum (1 / 24)) (JNum 1),
          bookingRow (JDate (JsDate 2025 1 3 0)) (JNum 0) (JNum 1)]
       = aggregateBookings plainHost [0, 1] 28 2 2025
           [headerRow, bookingRow (JDate (JsDate 2025 1 3 0)) (JNum (1 / 24)) (JNum 1)]"
proof -
  have zeroHours: "\<not> truthy (cellAt (bookingRow (JDate (JsDate 2025 1 3 0)) (JNum (3 / 8)) (JNum 0)) 7)"
    by (simp add: bookingRow_def cellAt_def)
  have zeroStart: "\<not> truthy (cellAt (bookingRow (JDate (JsDate 2025 1 3 0)) (JNum 0) (JNum 1)) 5)"
    by (simp add: bookingRow_def cellAt_def)
  from zeroHours have a: "processRow plainHost [9, 10] 28 2 2025 \<lparr>dataGrid = [[Num 1], [Num 0]], processedCount = 1\<rparr>
        (bookingRow (JDate (JsDate 2025 1 3 0)) (JNum (3 / 8)) (JNum 0))
       = \<lparr>dataGrid = [[Num 1], [Num 0]], processedCount = 1\<rparr>"
    using falsy_row_contributes_nothing [where rowData = "bookingRow (JDate (JsDate 2025 1 3 0)) (JNum (3 / 8)) (JNum 0)"]
    by blast
  from zeroStart have b: "aggregateBookings plainHost [0, 1] 28 2 2025
         (headerRow # [bookingRow (JDate (JsDate 2025 1 3 0)) (JNum (1 / 24)) (JNum 1)]
            @ bookingRow (JDate (JsDate 2025 1 3 0)) (JNum 0) (JNum 1) # [])
       = aggregateBookings plainHost [0, 1] 28 2 2025
           (headerRow # [bookingRow (JDate (JsDate 2025 1 3 0)) (JNum (1 / 24)) (JNum 1)] @ [])"
    using falsy_row_contributes_nothing [where rowData = "bookingRow (JDate (JsDate 2025 1 3 0)) (JNum 0) (JNum 1)"]
    by blast
  from zeroHours zeroStart a b show ?thesis by simp
qed

text \<open>
  Claim C7. A booking row whose date is in another month or year than the target leaves
  the booking grid as it was: the aggregation is the same with and without the row.
\<close>

theorem other_month_row_contributes_nothing:
  assumes "newDate h (cellAt rowData 3) = Some d"
    and "getMonth d + 1 \<noteq> monthNum \<or> getFullYear d \<noteq> year"
  shows "processRow h rows nDays monthNum year st rowData = st
       \<and> aggregateBookings h rows nDays monthNum year (header # before @ rowData # after)
         = aggregateBookings h rows nDays monthNum year (header # before @ after)"
  using assms aggregate_skip_row [of h rows nDays monthNum year rowData header before after]
    processRow_other_month [of h rowData d monthNum year rows nDays] by blast

theorem other_month_row_contributes_nothing_witness:
  "newDate plainHost (cellAt (bookingRow (JDate (JsDate 2025 2 3 0)) (JNum (3 / 8)) (JNum 1)) 3) = Some (JsDate 2025 2 3 0)
   \<and> getMonth (JsDate 2025 2 3 0) + 1 \<noteq> 2
   \<and> processRow plainHost [9, 10] 28 2 2025 \<lparr>dataGrid = [[Num 1], [Num 0]], processedCount = 1\<rparr>
        (bookingRow (JDate (JsDate 2025 2 3 0)) (JNum (3 / 8)) (JNum 1))
       = \<lparr>dataGrid = [[Num 1], [Num 0]], processedCount = 1\<rparr>
   \<and> aggregateBookings plainHost [9, 10] 28 2 2025
         [headerRow, bookingRow (JDate (JsDate 2025 2 3 0)) (JNum (3 / 8)) (JNum 1),
          bookingRow (JDate (JsDate 2025 1 3 0)) (JNum (3 / 8)) (JNum 1)]
       = aggregateBookings plainHost [9, 10] 28 2 2025
           [headerRow, bookingRow (JDate (JsDate 2025 1 3 0)) (JNum (3 / 8)) (JNum 1)]"
proof -
  have d: "newDate plainHost (cellAt (bookingRow (JDate (JsDate 2025 2 3 0)) (JNum (3 / 8)) (JNum 1)) 3) = Some (JsDate 2025 2 3 0)"
    by (simp add: bookingRow_def cellAt_def newDate_def)
  have m: "getMonth (JsDate 2025 2 3 0) + 1 \<noteq> 2 \<or> getFullYear (JsDate 2025 2 3 0) \<noteq> 2025"
    by simp
  note t = other_month_row_contributes_nothing [OF d m]
  from t [of "[9, 10]" 28 "\<lparr>dataGrid = [[Num 1], [Num 0]], processedCount = 1\<rparr>" headerRow "[]"
           "[bookingRow (JDate (JsDate 2025 1 3 0)) (JNum (3 / 8)) (JNum 1)]"] d
  show ?thesis by simp
qed

section \<open>Cell classification and tab-pair validation\<close>

text \<open>
  Claim C8. A cell is at capacity exactly when its booked value equals its available
  hours and these are positive, in both variants of the formatting; it is not at
  capacity when the booked value exceeds them; it is closed exactly when the available
  hours are 0. The booked value can exceed the available hours: in the February 2025
  example the cell of 9:00 on the 3rd holds 5 booked hours against 2 available.
\<close>

theorem capacity_classification:
  "(maxCapacityCell (Num b) a \<longleftrightarrow> b = a \<and> a > 0)
   \<and> (maxCapacityOnSheet b a \<longleftrightarrow> b = a \<and> a > 0)
   \<and> (b > a \<longrightarrow> \<not> maxCapacityCell (Num b) a \<and> \<not> maxCapacityOnSheet b a)
   \<and> (closedCell a \<longleftrightarrow> a = 0)
   \<and> (case createHoursDaysTable plainHost febBook True ''0225'' of
         Report r \<Rightarrow> dataGrid (booked r) ! 0 ! 2 = Num 5 \<and> availableGrid (availabilityData r) ! 0 ! 2 = 2
       | _ \<Rightarrow> False)"
proof -
  have run: "case createHoursDaysTable plainHost febBook True ''0225'' of
         Report r \<Rightarrow> dataGrid (booked r) ! 0 ! 2 = Num 5 \<and> availableGrid (availabilityData r) ! 0 ! 2 = 2
       | _ \<Rightarrow> False"
    by code_simp
  have cls: "(maxCapacityCell (Num b) a \<longleftrightarrow> b = a \<and> a > 0)
   \<and> (maxCapacityOnSheet b a \<longleftrightarrow> b = a \<and> a > 0)
   \<and> (b > a \<longrightarrow> \<not> maxCapacityCell (Num b) a \<and> \<not> maxCapacityOnSheet b a)
   \<and> (closedCell a \<longleftrightarrow> a = 0)"
    by (auto simp add: maxCapacityCell_def maxCapacityOnSheet_def writtenValue_def closedCell_def Let_def)
  from cls run show ?thesis by blast
qed

theorem capacity_classification_witness:
  "(5::rat) > 2 \<and> \<not> maxCapacityCell (Num 5) 2 \<and> \<not> maxCapacityOnSheet 5 2
   \<and> maxCapacityCell (Num 2) 2 \<and> maxCapacityOnSheet 2 2
   \<and> closedCell 0 \<and> \<not> closedCell 2 \<and> \<not> maxCapacityCell (Num 0) 0"
  using capacity_classification [of 5 2] capacity_classification [of 2 2] capacity_classification [of 0 0]
  by simp

text \<open>
  Claim C9. The line of a tab pair ends in \<^verbatim>\<open>EQUAL\<close> exactly when the two column sums are
  the same number; no tolerance applies: sums of 120 and 120.0049 are \<^verbatim>\<open>NOT EQUAL\<close>,
  while the reconciliation status of the report for the same totals is \<^verbatim>\<open>OK\<close>.
\<close>

theorem tab_pair_strict_equality:
  "(comparisonLabel primarySum secondarySum = ''EQUAL'' \<longleftrightarrow> primarySum = secondarySum)
   \<and> (comparisonLabel primarySum secondarySum = ''NOT EQUAL'' \<longleftrightarrow> primarySum \<noteq> secondarySum)
   \<and> (tabs ss (monthDigits @ name) = Some primarySheet \<and> tabs ss (monthDigits @ name @ ''_2'') = Some secondarySheet
       \<longrightarrow> pairLine h ss monthDigits name
             = name @ '' comparison: '' @ js_number_toString h (sumColumnH primarySheet) @ '' vs ''
               @ js_number_toString h (sumColumnH secondarySheet) @ '' - ''
               @ comparisonLabel (sumColumnH primarySheet) (sumColumnH secondarySheet))
   \<and> comparisonLabel 120 (1200049 / 10000) = ''NOT EQUAL''
   \<and> validationStatus 120 (1200049 / 10000) = ''OK''"
proof -
  have "validationStatus 120 (1200049 / 10000) = ''OK''"
    by code_simp
  then show ?thesis
    by (simp add: comparisonLabel_def pairLine_def Let_def)
qed

theorem tab_pair_strict_equality_witness:
  "tabs febBook (''0225'' @ ''e'') \<noteq> None \<and> tabs febBook (''0225'' @ ''e'' @ ''_2'') \<noteq> None
   \<and> pairLine plainHost febBook ''0225'' ''e'' = ''e comparison: 8 vs 7 - NOT EQUAL''
   \<and> monthHours plainHost febBook True ''0225''
       = Some [''e comparison: 8 vs 7 - NOT EQUAL'',
               ''i comparison: Primary tab '' @ [CHR 0x27] @ ''0225i'' @ [CHR 0x27] @ '' not found'',
               ''na comparison: Primary tab '' @ [CHR 0x27] @ ''0225na'' @ [CHR 0x27] @ '' not found'']"
proof -
  have tabsE: "tabs febBook (''0225'' @ ''e'') = Some [headerRow, bookingRow (JDate (JsDate 2025 1 3 0)) (JNum (3 / 8)) (JNum 8)]"
    "tabs febBook (''0225'' @ ''e'' @ ''_2'') = Some [headerRow,
                   bookingRow (JDate (JsDate 2025 1 3 0)) (JNum (3 / 8)) (JNum 5),
                   bookingRow (JDate (JsDate 2025 1 4 0)) (JStr ''10:00 am'') (JNum 2)]"
    by (simp_all add: febBook_def)
  have sums: "sumColumnH [headerRow, bookingRow (JDate (JsDate 2025 1 3 0)) (JNum (3 / 8)) (JNum 8)] = 8"
    "sumColumnH [headerRow,
                   bookingRow (JDate (JsDate 2025 1 3 0)) (JNum (3 / 8)) (JNum 5),
                   bookingRow (JDate (JsDate 2025 1 4 0)) (JStr ''10:00 am'') (JNum 2)] = 7"
    by code_simp+
  have render: "js_number_toString plainHost 8 = ''8''" "js_number_toString plainHost 7 = ''7''"
    by (simp_all add: js_number_toString_def nat_digits.simps)
  have others: "pairLine plainHost febBook ''0225'' ''i'' = ''i comparison: Primary tab '' @ [CHR 0x27] @ ''0225i'' @ [CHR 0x27] @ '' not found''"
    "pairLine plainHost febBook ''0225'' ''na'' = ''na comparison: Primary tab '' @ [CHR 0x27] @ ''0225na'' @ [CHR 0x27] @ '' not found''"
    by (simp_all add: pairLine_def febBook_def)
  from tab_pair_strict_equality [where ss = febBook and monthDigits = "''0225''" and name = "''e''"
      and h = plainHost and primarySum = 8 and secondarySum = 7
      and primarySheet = "[headerRow, bookingRow (JDate (JsDate 2025 1 3 0)) (JNum (3 / 8)) (JNum 8)]"
      and secondarySheet = "[headerRow,
                   bookingRow (JDate (JsDate 2025 1 3 0)) (JNum (3 / 8)) (JNum 5),
                   bookingRow (JDate (JsDate 2025 1 4 0)) (JStr ''10:00 am'') (JNum 2)]"] tabsE
  have "pairLine plainHost febBook ''0225'' ''e''
      = ''e'' @ '' comparison: '' @ js_number_toString plainHost (sumColumnH [headerRow, bookingRow (JDate (JsDate 2025 1 3 0)) (JNum (3 / 8)) (JNum 8)]) @ '' vs ''
               @ js_number_toString plainHost (sumColumnH [headerRow,
                   bookingRow (JDate (JsDate 2025 1 3 0)) (JNum (3 / 8)) (JNum 5),
                   bookingRow (JDate (JsDate 2025 1 4 0)) (JStr ''10:00 am'') (JNum 2)]) @ '' - ''
               @ comparisonLabel (sumColumnH [headerRow, bookingRow (JDate (JsDate 2025 1 3 0)) (JNum (3 / 8)) (JNum 8)]) (sumColumnH [headerRow,
                   bookingRow (JDate (JsDate 2025 1 3 0)) (JNum (3 / 8)) (JNum 5),
                   bookingRow (JDate (JsDate 2025 1 4 0)) (JStr ''10:00 am'') (JNum 2)])"
      and "comparisonLabel 8 7 = ''NOT EQUAL''"
    by (blast, simp)
  then have line: "pairLine plainHost febBook ''0225'' ''e'' = ''e comparison: 8 vs 7 - NOT EQUAL''"
    unfolding sums render by simp
  have "monthHours plainHost febBook True ''0225''
       = Some [pairLine plainHost febBook ''0225'' ''e'', pairLine plainHost febBook ''0225'' ''i'',
               pairLine plainHost febBook ''0225'' ''na'']"
    by (simp add: monthHours_def fourDigits_def is_digit_def)
  with line others tabsE show ?thesis by simp
qed

end
